theory Spec2Isabelle
  imports Complex_Main "HOL-Library.Sublist"
begin

section \<open>Strings as the source uses them\<close>

text \<open>
  Python strings are modelled as \<open>string\<close>, restricted to ASCII text: \<open>upper\<close>,
  \<open>lower\<close> and \<open>strip\<close> act on the ASCII letters and the ASCII white space only.
\<close>

definition is_space :: "char \<Rightarrow> bool" where
  "is_space c = (let n = (of_char c :: nat) in (9 \<le> n \<and> n \<le> 13) \<or> (28 \<le> n \<and> n \<le> 32))"

definition is_digit :: "char \<Rightarrow> bool" where
  "is_digit c = (let n = (of_char c :: nat) in 48 \<le> n \<and> n \<le> 57)"

definition is_upper :: "char \<Rightarrow> bool" where
  "is_upper c = (let n = (of_char c :: nat) in 65 \<le> n \<and> n \<le> 90)"

definition is_lower :: "char \<Rightarrow> bool" where
  "is_lower c = (let n = (of_char c :: nat) in 97 \<le> n \<and> n \<le> 122)"

definition is_word :: "char \<Rightarrow> bool" where
  "is_word c = (is_digit c \<or> is_upper c \<or> is_lower c \<or> c = CHR ''_'')"

definition upper_char :: "char \<Rightarrow> char" where
  "upper_char c = (if is_lower c then char_of (of_char c - (32::nat)) else c)"

definition lower_char :: "char \<Rightarrow> char" where
  "lower_char c = (if is_upper c then char_of (of_char c + (32::nat)) else c)"

definition upper :: "string \<Rightarrow> string" where
  "upper s = map upper_char s"

definition lower :: "string \<Rightarrow> string" where
  "lower s = map lower_char s"

definition strip :: "string \<Rightarrow> string" where
  "strip s = rev (dropWhile is_space (rev (dropWhile is_space s)))"

text \<open>\<open>sub in s\<close> of Python: \<open>sub\<close> occurs in \<open>s\<close> as a contiguous substring.\<close>

fun contains :: "string \<Rightarrow> string \<Rightarrow> bool" where
  "contains [] sub = (sub = [])"
| "contains (c # cs) sub = (prefix sub (c # cs) \<or> contains cs sub)"

section \<open>Regular expressions (the fragment of Python's \<open>re\<close> the source uses)\<close>

datatype rx =
    Eps
  | Lit char
  | Cls "char \<Rightarrow> bool"
  | Dot
  | Wb
  | Cat rx rx
  | Alt rx rx
  | Rep rx

text \<open>
  A matcher state is the character before the current position (\<open>None\<close> at the start
  of the subject) and the rest of the subject. \<open>rmatch r st\<close> lists, in backtracking
  order, the states in which a match of \<open>r\<close> begun at \<open>st\<close> can end. \<open>Rep\<close> is the
  greedy star; an iteration that consumes nothing is dropped, as the engine does.
\<close>

definition at_boundary :: "char option \<Rightarrow> string \<Rightarrow> bool" where
  "at_boundary p s =
     ((case p of None \<Rightarrow> False | Some c \<Rightarrow> is_word c)
      \<noteq> (case s of [] \<Rightarrow> False | c # _ \<Rightarrow> is_word c))"

function rmatch :: "rx \<Rightarrow> char option \<times> string \<Rightarrow> (char option \<times> string) list" where
  "rmatch Eps st = [st]"
| "rmatch (Lit c) st =
     (case snd st of [] \<Rightarrow> [] | d # ds \<Rightarrow> if d = c then [(Some d, ds)] else [])"
| "rmatch (Cls P) st =
     (case snd st of [] \<Rightarrow> [] | d # ds \<Rightarrow> if P d then [(Some d, ds)] else [])"
| "rmatch Dot st =
     (case snd st of [] \<Rightarrow> [] | d # ds \<Rightarrow> if d \<noteq> CHR 0x0A then [(Some d, ds)] else [])"
| "rmatch Wb st = (if at_boundary (fst st) (snd st) then [st] else [])"
| "rmatch (Cat r1 r2) st = concat (map (rmatch r2) (rmatch r1 st))"
| "rmatch (Alt r1 r2) st = rmatch r1 st @ rmatch r2 st"
| "rmatch (Rep r) st =
     concat (map (\<lambda>q. if length (snd q) < length (snd st) then rmatch (Rep r) q else [])
                 (rmatch r st)) @ [st]"
  by pat_completeness auto
termination
  by (relation "inv_image (less_than <*lex*> less_than) (\<lambda>(r, st). (size r, length (snd st)))")
     auto

text \<open>\<open>re.search(r, s)\<close> as a truth value: some position of \<open>s\<close> starts a match.\<close>

fun search_from :: "rx \<Rightarrow> char option \<Rightarrow> string \<Rightarrow> bool" where
  "search_from r p [] = (rmatch r (p, []) \<noteq> [])"
| "search_from r p (c # cs) = (rmatch r (p, c # cs) \<noteq> [] \<or> search_from r (Some c) cs)"

definition re_search :: "rx \<Rightarrow> string \<Rightarrow> bool" where
  "re_search r s = search_from r None s"

text \<open>Pattern syntax: a literal word, \<open>r?\<close>, \<open>\s*\<close>, \<open>.*\<close>, and alternation of a list.\<close>

definition word :: "string \<Rightarrow> rx" where
  "word s = foldr (\<lambda>c r. Cat (Lit c) r) s Eps"

definition opt :: "rx \<Rightarrow> rx" where
  "opt r = Alt r Eps"

definition ws :: rx where
  "ws = Rep (Cls is_space)"

definition any :: rx where
  "any = Rep Dot"

definition cats :: "rx list \<Rightarrow> rx" where
  "cats rs = foldr Cat rs Eps"

fun alts :: "rx list \<Rightarrow> rx" where
  "alts [] = Cls (\<lambda>_. False)"
| "alts [r] = r"
| "alts (r # rs) = Alt r (alts rs)"

text \<open>
  \<open>re.search\<close> of a pattern \<open>pre(grp)\<close> whose group closes the pattern, returning
  group 1: the leftmost start wins, and there the first match in backtracking order.
\<close>

fun first_group :: "rx \<Rightarrow> (char option \<times> string) list \<Rightarrow> string option" where
  "first_group grp [] = None"
| "first_group grp (q # qs) =
     (case rmatch grp q of
        [] \<Rightarrow> first_group grp qs
      | q' # _ \<Rightarrow> Some (take (length (snd q) - length (snd q')) (snd q)))"

fun search_group :: "rx \<Rightarrow> rx \<Rightarrow> char option \<Rightarrow> string \<Rightarrow> string option" where
  "search_group pre grp p [] = first_group grp (rmatch pre (p, []))"
| "search_group pre grp p (c # cs) =
     (case first_group grp (rmatch pre (p, c # cs)) of
        Some g \<Rightarrow> Some g
      | None \<Rightarrow> search_group pre grp (Some c) cs)"

definition plus :: "rx \<Rightarrow> rx" where
  "plus r = Cat r (Rep r)"

definition dg :: rx where
  "dg = Cls is_digit"

section \<open>Surcharge-label canonicalization (\<open>check_disputable_surcharges\<close>, \<open>CANON\<close> and \<open>canonize\<close>)\<close>

definition add_handling :: rx where
  \<comment> \<open>\<open>AD(D'?|DL)?(ITIONAL)?\s*HANDLING\<close>\<close>
  "add_handling =
     cats [word ''AD'', opt (Alt (Cat (Lit CHR ''D'') (opt (Lit (CHR 0x27)))) (word ''DL'')),
           opt (word ''ITIONAL''), ws, word ''HANDLING'']"

definition CANON :: "(rx \<times> string) list" where
  "CANON =
   [(cats [word ''ADDRESS'', ws, word ''CORR''], ''ADDRESS CORRECTION''),
    (Alt (cats [word ''DAS'', any, word ''RES'', opt (word ''IDENTIAL'')])
         (cats [word ''DELIVERY'', ws, word ''AREA'', any, word ''RES'', opt (word ''IDENTIAL'')]),
     ''DAS RESIDENTIAL''),
    (Alt (cats [Wb, word ''RES'', Alt Eps (word ''IDENTIAL''), Wb])
         (cats [word ''RES'', ws, word ''SURCHARGE'']),
     ''RESIDENTIAL SURCHARGE''),
    (cats [word ''SAT'', opt (word ''URDAY''), ws, word ''DEL'', opt (word ''IVERY'')],
     ''SATURDAY DELIVERY''),
    (cats [word ''SAT'', opt (word ''URDAY''), ws, word ''PICKUP''], ''SATURDAY PICKUP''),
    (Alt (cats [word ''SUNDAY'', ws, word ''DEL'', opt (word ''IVERY'')]) (word ''WEEKEND''),
     ''SUNDAY/WEEKEND CHARGE''),
    (cats [word ''RETURN'', ws, alts [word ''FEE'', word ''TO SHIPPER'', word ''RTS'']],
     ''RETURN FEE''),
    (alts [word ''REDIRECT'', cats [word ''DELIVERY'', ws, word ''CHANGE''],
           cats [word ''ADDRESS'', ws, word ''CHANGE'']],
     ''REDIRECT DELIVERY FEE''),
    (Alt (cats [word ''HOLD'', ws, opt (word ''AT''), ws, word ''LOCATION''])
         (cats [word ''WILL'', ws, word ''CALL'']),
     ''HOLD AT LOCATION FEE''),
    (alts [cats [word ''DUPLICATE'', ws, word ''INVOICE''],
           cats [word ''INVALID'', ws, word ''ACCOUNT''],
           cats [word ''INCORRECT'', ws, word ''BILL'', opt (word ''ING'')],
           word ''REBILL'',
           cats [word ''MANUAL'', ws, word ''PROCESS'']],
     ''BILLING ERROR FEE''),
    (cats [add_handling, any, Alt (word ''PACKAGE'') (word ''PACKAGING'')], ''AHS PACKAGING''),
    (cats [word ''DEMAND'', any, word ''ADDITIONAL'', any, word ''HANDLING''],
     ''DEMAND ADDITIONAL HANDLING''),
    (alts [add_handling, word ''AHS'',
           cats [word ''NON'', Rep (Cls (\<lambda>c. c = CHR ''-'' \<or> is_space c)), word ''MACHINABLE'']],
     ''ADDITIONAL HANDLING SURCHARGE''),
    (cats [word ''DEMAND'', any, word ''OVERSIZE''], ''DEMAND OVERSIZE''),
    (alts [word ''OVERSIZE'', cats [word ''OVER'', ws, word ''SIZE''],
           cats [word ''LARGE'', ws, word ''PACKAGE'']],
     ''OVERSIZE CHARGE''),
    (cats [word ''UNAUTH'', opt (word ''ORIZED''), ws, word ''PACKAGE''],
     ''UNAUTHORIZED PACKAGE CHARGE''),
    (cats [word ''PEAK'', ws, word ''ADDITIONAL'', ws, word ''HANDLING''],
     ''PEAK ADDITIONAL HANDLING''),
    (cats [word ''PEAK'', ws, word ''OVERSIZE''], ''PEAK OVERSIZE''),
    (cats [word ''PEAK'', ws, word ''RESIDENTIAL''], ''PEAK RESIDENTIAL''),
    (cats [Wb, word ''PEAK'', Wb], ''PEAK SURCHARGE''),
    (alts [cats [word ''MONEY'', Rep (Cls (\<lambda>c. c = CHR ''-'' \<or> is_space c)), word ''BACK''],
           cats [word ''LATE'', ws, word ''DELIVERY''],
           cats [word ''SERVICE'', ws, word ''FAILURE''],
           cats [word ''TRANSIT'', ws, word ''TIME''],
           cats [word ''DELIVERY'', ws, word ''EXCEPTION'']],
     ''SERVICE FAILURE ADJUSTMENT''),
    (cats [word ''WEIGHT'', ws, word ''CORRECTION''], ''WEIGHT CORRECTION''),
    (Alt (cats [word ''DIM'', opt (word ''ENSIONAL''), ws, word ''WEIGHT''])
         (cats [word ''CUBIC'', ws, word ''VOLUME'']),
     ''DIM WEIGHT ADJUSTMENT''),
    (word ''OVERWEIGHT'', ''OVERWEIGHT CHARGE''),
    (alts [word ''BROKERAGE'',
           cats [word ''DUTY'', ws, word ''AND'', ws, word ''TAX''],
           cats [word ''ENTRY'', ws, word ''PREPARATION''],
           cats [word ''CLEARANCE'', ws, word ''ENTRY''],
           cats [word ''IMPORT'', ws, word ''DATA'', ws, word ''CORRECTION'']],
     ''CUSTOMS/BROKERAGE FEE''),
    (alts [cats [word ''INVALID'', ws, word ''PICKUP''],
           cats [word ''ATTEMPTED'', ws, word ''DELIVERY''],
           word ''UNDELIVERABLE'',
           cats [word ''DELIVERY'', ws, word ''ATTEMPT'']],
     ''FAILED PICKUP/DELIVERY FEE''),
    (alts [word ''FUEL'', cats [word ''FUEL'', ws, word ''SURCHARGE''], word ''FSC''],
     ''FUEL SURCHARGE''),
    (alts [cats [word ''DECLARED'', ws, word ''VALUE''], cats [word ''DV'', ws, word ''CHARGE''],
           word ''INSURANCE''],
     ''DECLARED VALUE CHARGE''),
    (cats [word ''MISSING'', ws, word ''DOC''], ''MISSING DOCUMENTATION FEE'')]"

text \<open>The loop of \<open>canonize\<close>: the first pattern found in \<open>u\<close> gives the name.\<close>

fun first_match :: "(rx \<times> string) list \<Rightarrow> string \<Rightarrow> string option" where
  "first_match [] u = None"
| "first_match ((pat, name) # ps) u = (if re_search pat u then Some name else first_match ps u)"

definition canonize :: "string \<Rightarrow> string" where
  "canonize label =
     (let u = strip (upper label)
      in case first_match CANON u of Some name \<Rightarrow> name | None \<Rightarrow> u)"

section \<open>Records of a billing export\<close>

text \<open>
  A cell of the table is null (NaN), a string, a number or a timestamp (seconds since
  1970-01-01, no time zone). A row maps the column names of its table to cells;
  \<open>None\<close> means that the table has no such column. Rows carry a unique index label.
  What the source takes from Python and pandas and not from this repository is a
  parameter of the model: \<open>str\<close> of a cell that is not a string, \<open>float\<close> of a string,
  \<open>pd.to_numeric\<close> and \<open>pd.to_datetime\<close> with \<open>errors='coerce'\<close> (\<open>None\<close> is NaN and NaT),
  the formatting of a float with a fixed number of decimals, and \<open>round(x, 2)\<close>. Parsed
  numbers are finite. A table is the list of its rows, all over the same columns.
  \<open>tz_aware\<close> tells whether \<open>pd.to_datetime\<close> of a cell carries a time zone; the
  filing-window classifier, whose pattern admits a zone, reads it, and the checks of the
  audit engine are modelled on tables whose dates carry none.
\<close>

datatype cell = CNull | CStr string | CNum rat | CTime int

type_synonym row = "string \<rightharpoonup> cell"

record lib =
  str_other :: "cell \<Rightarrow> string"
  float_str :: "string \<Rightarrow> rat option"
  to_numeric :: "string \<Rightarrow> rat option"
  to_datetime :: "cell \<Rightarrow> int option"
  fmt_fixed :: "nat \<Rightarrow> rat \<Rightarrow> string"
  round2 :: "rat \<Rightarrow> rat"
  tz_aware :: "cell \<Rightarrow> bool"

datatype error = ValueError | TypeError | KeyError | AttributeError

definition py_str :: "lib \<Rightarrow> cell \<Rightarrow> string" where
  "py_str L c = (case c of CStr s \<Rightarrow> s | CNull \<Rightarrow> ''nan'' | _ \<Rightarrow> str_other L c)"

text \<open>\<open>field in row.index and pd.notna(row[field])\<close>, giving the cell.\<close>

definition notna_cell :: "row \<Rightarrow> string \<Rightarrow> cell option" where
  "notna_cell r f = (case r f of None \<Rightarrow> None | Some CNull \<Rightarrow> None | Some c \<Rightarrow> Some c)"

fun join_sp :: "string list \<Rightarrow> string" where
  "join_sp [] = []"
| "join_sp [x] = x"
| "join_sp (x # xs) = x @ '' '' @ join_sp xs"

section \<open>Residential classifier\<close>

definition default_residential_patterns :: "string list" where
  "default_residential_patterns =
    [''residential surcharge'', ''residential delivery'',
     ''delivery area surcharge - residential'', ''das - residential'', ''das residential'',
     ''home delivery'', ''address correction - residential'', ''residential area surcharge'',
     ''residential area'']"

text \<open>\<open>__init__\<close>: an absent or empty pattern list gives the default list.\<close>

definition residential_patterns :: "string list option \<Rightarrow> string list" where
  "residential_patterns cfg =
     (case cfg of None \<Rightarrow> default_residential_patterns
      | Some ps \<Rightarrow> if ps = [] then default_residential_patterns else ps)"

definition business_indicators :: "string list" where
  "business_indicators =
    [''LLC'', ''INC'', ''CORP'', ''COMPANY'', ''BUSINESS'', ''OFFICE'',
     ''WAREHOUSE'', ''STORE'', ''SHOP'', ''CENTER'', ''DISTRIBUTION'',
     ''SEPHORA'', ''ULTA'', ''NORDSTROM'', ''BLOOMINGDALE'', ''MACY'',
     ''KOHLS'', ''TARGET'', ''MAC COSMETICS'',
     ''DIOR'', ''TOWER 28'', ''L'' @ [CHR 0x27] @ ''OREAL'', ''LOREAL'',
     ''MALL OF AMERICA'', ''VALLEY FAIR'', ''HOUSTON GALLERIA'',
     ''SANTA ANITA'', ''NORTH PARK'', ''CHESTNUT HILL'', ''CERRITOS'',
     ''CORAL GABLES'', ''DADELAND'', ''AVENTURA'',
     ''MILLSTREAM'', ''BELLEVUE'', ''BERKELEY'',
     ''WES HARNESS'',
     ''HUNTER PHILLIPS'', ''WILLIAM WESPY'', ''FAB SHIPPING'', ''JESSE MENG'',
     ''AMYCE STOD DARD'', ''MARK LOVELESS'', ''MKT ALLIANCE'',
     ''MARKETING ALLIANCE GROUP'', ''MARKETING ALLIANCE'',
     ''CREATIVE PLASTICS'', ''CREATIVE PLASTIC'', ''H & B'',
     ''251 GILLUM'', ''GILLUM DR'', ''GILLUM DRIVE'', ''GILLU I DRIVE'',
     ''1409 CORONET'', ''CORONET DR'', ''CORONET DRIVE'']"

definition business_abbrev :: "string list" where
  "business_abbrev = [''NRD'', ''BLM'']"

definition has_business_indicators :: "string \<Rightarrow> bool" where
  "has_business_indicators dest_info =
     (list_ex (\<lambda>indicator. contains dest_info indicator) business_indicators \<or>
      list_ex (\<lambda>abbrev. re_search (cats [Wb, word abbrev, Wb]) dest_info) business_abbrev)"

text \<open>The loop shared by \<open>_get_full_destination_info\<close> and \<open>_get_full_shipper_info\<close>.\<close>

definition info_parts :: "lib \<Rightarrow> row \<Rightarrow> string list \<Rightarrow> string list" where
  "info_parts L r flds =
     concat (map (\<lambda>field. case notna_cell r field of None \<Rightarrow> []
                    | Some c \<Rightarrow> (let val = strip (py_str L c) in if val \<noteq> [] then [val] else []))
                 flds)"

definition get_full_destination_info :: "lib \<Rightarrow> row \<Rightarrow> string" where
  "get_full_destination_info L r =
     join_sp (info_parts L r
       [''Recipient Company Name'', ''Recipient Name'', ''Consignee'',
        ''Recipient Address'', ''Destination Address'', ''Recipient Original Address'',
        ''Recipient City'', ''Recipient State/Province'', ''Recipient Postal Code''])"

definition get_full_shipper_info :: "lib \<Rightarrow> row \<Rightarrow> string" where
  "get_full_shipper_info L r =
     join_sp (info_parts L r
       [''Shipper Company Name'', ''Shipper Name'', ''Shipper'',
        ''Shipper Address'', ''Origin Address'', ''Ship From Address'',
        ''Shipper City'', ''Shipper State'', ''Shipper Postal Code''])"

definition surcharge_fields :: "string list" where
  "surcharge_fields =
    [''Surcharge_Details'', ''Service Description'', ''Service Type'',
     ''Charge Description'', ''Charge Type'', ''Net Charge Title'',
     ''Accessorial Charge'', ''Surcharge Description'', ''Surcharge Type'',
     ''Residential Surcharge'', ''Delivery Area Surcharge'', ''Additional Charges'']"

text \<open>\<open>has_residential\<close> of \<open>detect_residential_surcharges\<close>: some surcharge field of the
  row holds, in lower case, one of the patterns.\<close>

definition matches_residential :: "lib \<Rightarrow> string list \<Rightarrow> row \<Rightarrow> bool" where
  "matches_residential L pats r =
     list_ex (\<lambda>field. case notna_cell r field of None \<Rightarrow> False
                | Some c \<Rightarrow> list_ex (\<lambda>pattern. contains (lower (py_str L c)) (lower pattern)) pats)
             surcharge_fields"

text \<open>The value that \<open>detect_residential_surcharges\<close> leaves in the column
  \<open>has_residential_surcharge\<close> of the row.\<close>

definition has_residential_surcharge :: "lib \<Rightarrow> string list \<Rightarrow> row \<Rightarrow> bool" where
  "has_residential_surcharge L pats r =
     (if matches_residential L pats r then
        (let dest_info = upper (get_full_destination_info L r);
             shipper_info = upper (get_full_shipper_info L r);
             is_recipient_business = has_business_indicators dest_info;
             is_shipper_business = has_business_indicators shipper_info
         in \<not> is_recipient_business \<or> \<not> is_shipper_business)
      else False)"

text \<open>The split of \<open>run_full_audit\<close>: \<open>residential_df\<close> and \<open>main_audit_df\<close>.\<close>

definition residential_df :: "lib \<Rightarrow> string list \<Rightarrow> row list \<Rightarrow> row list" where
  "residential_df L pats df = filter (has_residential_surcharge L pats) df"

definition main_audit_df :: "lib \<Rightarrow> string list \<Rightarrow> row list \<Rightarrow> row list" where
  "main_audit_df L pats df = filter (\<lambda>r. \<not> has_residential_surcharge L pats r) df"

section \<open>Dates and numbers\<close>

text \<open>
  Timestamps are seconds since 1970-01-01 00:00, a Thursday; \<open>weekday\<close> counts from
  Monday = 0 as \<open>datetime.weekday\<close> does. \<open>civil_from_days\<close> gives year, month and day
  of a day number in the proleptic Gregorian calendar, for \<open>strftime('%Y-%m-%d')\<close>.
\<close>

definition day_secs :: int where
  "day_secs = 86400"

definition weekday :: "int \<Rightarrow> nat" where
  "weekday ts = nat ((ts div day_secs + 3) mod 7)"

definition civil_from_days :: "int \<Rightarrow> int \<times> int \<times> int" where
  "civil_from_days z =
     (let z1 = z + 719468;
          era = z1 div 146097;
          doe = z1 - era * 146097;
          yoe = (doe - doe div 1460 + doe div 36524 - doe div 146096) div 365;
          y = yoe + era * 400;
          doy = doe - (365 * yoe + yoe div 4 - yoe div 100);
          mp = (5 * doy + 2) div 153;
          d = doy - (153 * mp + 2) div 5 + 1;
          m = (if mp < 10 then mp + 3 else mp - 9)
      in (if m \<le> 2 then y + 1 else y, m, d))"

definition days_from_civil :: "int \<Rightarrow> int \<Rightarrow> int \<Rightarrow> int" where
  "days_from_civil y0 m d =
     (let y = (if m \<le> 2 then y0 - 1 else y0);
          era = y div 400;
          yoe = y - era * 400;
          doy = (153 * (if m > 2 then m - 3 else m + 9) + 2) div 5 + d - 1;
          doe = yoe * 365 + yoe div 4 - yoe div 100 + doy
      in era * 146097 + doe - 719468)"

function show_nat :: "nat \<Rightarrow> string" where
  "show_nat n =
     (if n < 10 then [char_of (48 + n)] else show_nat (n div 10) @ [char_of (48 + n mod 10)])"
  by pat_completeness auto
termination
  by (relation "measure id") auto

definition show_int :: "int \<Rightarrow> string" where
  "show_int i = (if i < 0 then CHR ''-'' # show_nat (nat (- i)) else show_nat (nat i))"

definition pad0 :: "nat \<Rightarrow> string \<Rightarrow> string" where
  "pad0 k s = replicate (k - length s) CHR ''0'' @ s"

definition strftime_ymd :: "int \<Rightarrow> string" where
  "strftime_ymd ts =
     (case civil_from_days (ts div day_secs) of
        (y, m, d) \<Rightarrow> pad0 4 (show_int y) @ ''-'' @ pad0 2 (show_int m) @ ''-'' @ pad0 2 (show_int d))"

text \<open>\<open>round(x)\<close>: to the nearest integer, a tie to the even one.\<close>

definition round_half_even :: "rat \<Rightarrow> int" where
  "round_half_even x =
     (let f = \<lfloor>x\<rfloor>; d = x - of_int f
      in if d < 1 / 2 then f else if d > 1 / 2 then f + 1 else if even f then f else f + 1)"

text \<open>A Python float: a finite number or NaN. Every float but zero is truthy.\<close>

datatype pnum = Fin rat | NaN

definition or_num :: "pnum \<Rightarrow> pnum \<Rightarrow> pnum" where
  "or_num x y = (if x = Fin 0 then y else x)"

text \<open>\<open>row.get(col, '')\<close> and \<open>str(row.get(col, ''))\<close>.\<close>

definition get_cell :: "row \<Rightarrow> string \<Rightarrow> cell" where
  "get_cell r col = (case r col of None \<Rightarrow> CStr [] | Some c \<Rightarrow> c)"

definition get_str :: "lib \<Rightarrow> row \<Rightarrow> string \<Rightarrow> string" where
  "get_str L r col = py_str L (get_cell r col)"

text \<open>\<open>float(row.get(col, 0) or 0)\<close>: an absent column, a zero and an empty string give
  0.0, NaN stays NaN (it is truthy), a string goes through \<open>float\<close>, which may raise.\<close>

definition float_or0 :: "lib \<Rightarrow> row \<Rightarrow> string \<Rightarrow> error + pnum" where
  "float_or0 L r col =
     (case r col of
        None \<Rightarrow> Inr (Fin 0)
      | Some CNull \<Rightarrow> Inr NaN
      | Some (CNum q) \<Rightarrow> Inr (Fin q)
      | Some (CStr s) \<Rightarrow>
          if s = [] then Inr (Fin 0)
          else (case float_str L s of None \<Rightarrow> Inl ValueError | Some q \<Rightarrow> Inr (Fin q))
      | Some (CTime t) \<Rightarrow> Inl TypeError)"

text \<open>\<open>pd.to_datetime(row.get(c1), errors='coerce') or pd.to_datetime(row.get(c2),
  errors='coerce')\<close>: of an absent column \<open>row.get\<close> is \<open>None\<close> and so is its
  \<open>to_datetime\<close>, which \<open>or\<close> passes over; a timestamp and NaT are both truthy.\<close>

definition get_datetime_or :: "lib \<Rightarrow> row \<Rightarrow> string \<Rightarrow> string \<Rightarrow> int option" where
  "get_datetime_or L r c1 c2 =
     (case r c1 of
        Some v \<Rightarrow> to_datetime L v
      | None \<Rightarrow> (case r c2 of Some v \<Rightarrow> to_datetime L v | None \<Rightarrow> None))"

record finding =
  Error_Type :: string
  Tracking_Number :: cell
  Date :: string
  Carrier :: cell
  Service_Type :: cell
  Dispute_Reason :: string
  Refund_Estimate :: pnum
  Notes :: string

section \<open>Late-delivery detector\<close>

definition fedex_guaranteed_service_codes :: "string list" where
  "fedex_guaranteed_service_codes = [''PO'', ''FO'', ''SO'', ''ES'', ''OA'', ''LO'', ''IP'']"

definition service_delivery_times :: "string \<rightharpoonup> nat" where
  "service_delivery_times =
     map_of [(''FEDEX_2DAY'', 2), (''FEDEX_STANDARD_OVERNIGHT'', 1),
             (''FEDEX_PRIORITY_OVERNIGHT'', 1), (''FEDEX_INTERNATIONAL_PRIORITY'', 1),
             (''INTERNATIONAL_PRIORITY'', 1), (''FEDEX_FIRST_OVERNIGHT'', 1),
             (''FEDEX_INTL_PRIORITY_EXPRESS'', 1),
             (''UPS_NEXT_DAY_AIR'', 1), (''UPS_NEXT_DAY_AIR_SAVER'', 1),
             (''UPS_2ND_DAY_AIR'', 2)]"

text \<open>\<open>_add_business_days\<close>: the loop state is \<open>current_date\<close> and \<open>days_added\<close>.\<close>

function add_business_days_loop :: "int \<Rightarrow> nat \<Rightarrow> nat \<Rightarrow> int" where
  "add_business_days_loop current_date days_added business_days =
     (if days_added < business_days then
        (let current_date' = current_date + day_secs
         in add_business_days_loop current_date'
              (if weekday current_date' < 5 then days_added + 1 else days_added) business_days)
      else current_date)"
  by pat_completeness auto
termination
proof (relation "inv_image (less_than <*lex*> less_than)
         (\<lambda>(c, a, n). (n - a, (if weekday c = 4 then 2 else if weekday c = 5 then 1 else (0::nat))))",
       goal_cases)
  case 1
  show ?case by (intro wf_inv_image wf_lex_prod wf_less_than)
next
  case (2 current_date days_added business_days x)
  have w: "weekday (current_date + day_secs) = (weekday current_date + 1) mod 7"
    unfolding weekday_def day_secs_def
  proof -
    have "(current_date + 86400) div 86400 = current_date div 86400 + 1" by simp
    then have "((current_date + 86400) div 86400 + 3) mod 7 = ((current_date div 86400 + 3) mod 7 + 1) mod 7"
      by (simp add: mod_simps algebra_simps)
    moreover have "0 \<le> (current_date div 86400 + 3) mod 7" by simp
    ultimately show "nat (((current_date + 86400) div 86400 + 3) mod 7)
        = (nat ((current_date div 86400 + 3) mod 7) + 1) mod 7"
      by (simp add: nat_mod_distrib nat_add_distrib)
  qed
  have b: "weekday current_date < 7"
    unfolding weekday_def by (simp add: nat_less_iff)
  have k: "\<not> weekday (current_date + day_secs) < 5 \<Longrightarrow>
      (weekday current_date = 4 \<and> weekday (current_date + day_secs) = 5) \<or>
      (weekday current_date = 5 \<and> weekday (current_date + day_secs) = 6)"
    using w b by presburger
  show ?case
  proof (cases "weekday (current_date + day_secs) < 5")
    case True
    with 2 show ?thesis by auto
  next
    case False
    from k [OF False] 2 False show ?thesis by auto
  qed
qed

definition add_business_days :: "int \<Rightarrow> nat \<Rightarrow> int" where
  "add_business_days start_date business_days = add_business_days_loop start_date 0 business_days"

text \<open>The number of business days (Monday to Friday) among the \<open>k\<close> days that follow
  the day of \<open>s\<close>.\<close>

fun count_business_days :: "int \<Rightarrow> nat \<Rightarrow> nat" where
  "count_business_days s 0 = 0"
| "count_business_days s (Suc k) =
     (if weekday (s + day_secs) < 5 then 1 else 0) + count_business_days (s + day_secs) k"

definition replace_sp :: "string \<Rightarrow> string" where
  "replace_sp s = map (\<lambda>c. if c = CHR '' '' then CHR ''_'' else c) s"

text \<open>The FedEx gate: the carrier holds \<open>FEDEX\<close> and the service code is not guaranteed.\<close>

definition fedex_not_guaranteed :: "lib \<Rightarrow> row \<Rightarrow> bool" where
  "fedex_not_guaranteed L r =
     (contains (upper (get_str L r ''Carrier'')) ''FEDEX'' \<and>
      upper (strip (get_str L r ''Service Type'')) \<notin> set fedex_guaranteed_service_codes)"

text \<open>\<open>expected_days\<close>: the table at the service description, or else at carrier and
  service type joined by an underscore (no entry of the table is zero).\<close>

definition expected_days_of :: "lib \<Rightarrow> row \<Rightarrow> nat option" where
  "expected_days_of L r =
     (let service_desc = replace_sp (upper (get_str L r ''Service Description''));
          service_type_u = replace_sp (upper (get_str L r ''Service Type''));
          carrier_u = upper (get_str L r ''Carrier'')
      in case service_delivery_times service_desc of
           Some n \<Rightarrow> Some n
         | None \<Rightarrow> service_delivery_times (carrier_u @ ''_'' @ service_type_u))"

definition late_finding :: "row \<Rightarrow> int \<Rightarrow> int \<Rightarrow> int \<Rightarrow> pnum \<Rightarrow> finding" where
  "late_finding r ship_date expected_delivery delivery_date refund =
     \<lparr>Error_Type = ''Late Delivery'',
      Tracking_Number = get_cell r ''Tracking Number'',
      Date = strftime_ymd ship_date,
      Carrier = get_cell r ''Carrier'',
      Service_Type = get_cell r ''Service Type'',
      Dispute_Reason = ''Package delivered '' @
         show_int ((delivery_date - expected_delivery) div day_secs) @ '' day(s) late'',
      Refund_Estimate = refund,
      Notes = ''Expected: '' @ strftime_ymd expected_delivery @
              '', Actual: '' @ strftime_ymd delivery_date\<rparr>"

text \<open>The body of the \<open>try\<close> of \<open>check_late_deliveries\<close> for one row.\<close>

definition late_row_try :: "lib \<Rightarrow> row \<Rightarrow> error + finding list" where
  "late_row_try L r =
     (if fedex_not_guaranteed L r then Inr []
      else
        (case expected_days_of L r of
           None \<Rightarrow> Inr []
         | Some expected_days \<Rightarrow>
           (case (get_datetime_or L r ''Shipment Date'' ''Shipment Date (mm/dd/yyyy)'',
                  get_datetime_or L r ''Delivery Date'' ''Shipment Delivery Date (mm/dd/yyyy)'') of
              (Some ship_date, Some delivery_date) \<Rightarrow>
                (let expected_delivery = add_business_days ship_date expected_days in
                 if delivery_date > expected_delivery then
                   (case float_or0 L r ''Total Charges'' of Inl e \<Rightarrow> Inl e
                    | Inr total_charges \<Rightarrow>
                    (case float_or0 L r ''Base Rate'' of Inl e \<Rightarrow> Inl e
                    | Inr base_rate \<Rightarrow>
                    (case float_or0 L r ''Billed Amount'' of Inl e \<Rightarrow> Inl e
                    | Inr billed_amount \<Rightarrow>
                      Inr [late_finding r ship_date expected_delivery delivery_date
                             (or_num total_charges (or_num base_rate billed_amount))])))
                 else Inr [])
            | _ \<Rightarrow> Inr [])))"

text \<open>\<open>except Exception: continue\<close>: a row whose body raises adds nothing.\<close>

definition late_row :: "lib \<Rightarrow> row \<Rightarrow> finding list" where
  "late_row L r = (case late_row_try L r of Inl e \<Rightarrow> [] | Inr fs \<Rightarrow> fs)"

definition check_late_deliveries :: "lib \<Rightarrow> row list \<Rightarrow> finding list" where
  "check_late_deliveries L df = concat (map (late_row L) df)"

section \<open>Duplicate-tracking detector\<close>

text \<open>\<open>col in df.columns\<close>, for a table that is not empty.\<close>

definition in_columns :: "row list \<Rightarrow> string \<Rightarrow> bool" where
  "in_columns df col = (case df of [] \<Rightarrow> False | r # _ \<Rightarrow> r col \<noteq> None)"

definition remove_chars :: "string \<Rightarrow> string \<Rightarrow> string" where
  "remove_chars cs s = filter (\<lambda>c. c \<notin> set cs) s"

definition normalize_tracking :: "lib \<Rightarrow> cell \<Rightarrow> string" where
  "normalize_tracking L x =
     (case x of CNull \<Rightarrow> [] | _ \<Rightarrow> upper (remove_chars '' -'' (strip (py_str L x))))"

definition tracking_cell :: "row \<Rightarrow> cell" where
  "tracking_cell r = (case r ''Tracking Number'' of None \<Rightarrow> CNull | Some c \<Rightarrow> c)"

definition key_tracking :: "lib \<Rightarrow> row \<Rightarrow> string" where
  "key_tracking L r = normalize_tracking L (tracking_cell r)"

text \<open>The columns \<open>_carrier\<close> and \<open>_group_key\<close> of \<open>df_work\<close>. The source computes them
  and reads neither again.\<close>

definition carrier_key :: "lib \<Rightarrow> row \<Rightarrow> string" where
  "carrier_key L r =
     (case r ''Carrier'' of
        None \<Rightarrow> ''Unknown''
      | Some CNull \<Rightarrow> ''UNKNOWN''
      | Some c \<Rightarrow> upper (py_str L c))"

definition group_key :: "lib \<Rightarrow> row \<Rightarrow> string" where
  "group_key L r = carrier_key L r @ ''||'' @ key_tracking L r"

text \<open>\<open>_get_float_value\<close>: the first candidate column that holds a number. A number
  cell passes through \<open>str\<close> and \<open>float\<close> unchanged; of a string the currency sign and
  the commas go and a parenthesis becomes a minus sign before \<open>float\<close>.\<close>

definition clean_amount :: "string \<Rightarrow> string" where
  "clean_amount s =
     remove_chars '')'' (map (\<lambda>c. if c = CHR ''('' then CHR ''-'' else c)
                              (remove_chars ''$,'' (strip s)))"

fun get_float_value :: "lib \<Rightarrow> row \<Rightarrow> string list \<Rightarrow> rat" where
  "get_float_value L r [] = 0"
| "get_float_value L r (col # cols) =
     (case notna_cell r col of
        Some (CNum q) \<Rightarrow> q
      | Some (CStr s) \<Rightarrow>
          (if clean_amount s \<noteq> [] then
             (case float_str L (clean_amount s) of
                Some q \<Rightarrow> q
              | None \<Rightarrow> get_float_value L r cols)
           else get_float_value L r cols)
      | _ \<Rightarrow> get_float_value L r cols)"

definition freight_candidates :: "string list" where
  "freight_candidates = [''Freight Charges'', ''Base Rate'', ''Freight'', ''Transportation Charge'']"

definition misc_candidates :: "string list" where
  "misc_candidates = [''Surcharges'', ''Miscellaneous Charges'', ''Additional Charges'', ''Misc'']"

definition duty_candidates :: "string list" where
  "duty_candidates = [''Duty and Tax'', ''Duty & Tax'', ''Duties'', ''Taxes'', ''Customs Charges'']"

definition discount_candidates :: "string list" where
  "discount_candidates = [''Discount'', ''Discounts'', ''Credit'']"

record amounts =
  freight :: rat
  misc :: rat
  duty :: rat
  discount :: rat
  net :: rat

text \<open>The five amounts the first loop of \<open>check_duplicate_tracking\<close> appends for a row.\<close>

definition row_amounts :: "lib \<Rightarrow> row list \<Rightarrow> row \<Rightarrow> amounts" where
  "row_amounts L df r =
     (let freight0 = get_float_value L r freight_candidates;
          misc0 = get_float_value L r misc_candidates;
          duty0 = get_float_value L r duty_candidates;
          discount0 = \<bar>get_float_value L r discount_candidates\<bar>;
          fallback = freight0 + misc0 + duty0 - discount0;
          net0 = (case r ''Total Charges'' of
                    None \<Rightarrow> 0
                  | Some CNull \<Rightarrow> fallback
                  | Some (CNum q) \<Rightarrow> q
                  | Some (CStr s) \<Rightarrow>
                      (case float_str L (remove_chars ''$,'' s) of
                         Some q \<Rightarrow> q
                       | None \<Rightarrow> fallback)
                  | Some (CTime t) \<Rightarrow> fallback);
          has_duty_columns = list_ex (in_columns df) duty_candidates;
          has_freight_columns = list_ex (in_columns df) freight_candidates
      in \<lparr>freight = (if \<not> has_duty_columns \<and> \<not> has_freight_columns \<and>
                         freight0 = 0 \<and> misc0 = 0 \<and> duty0 = 0 \<and> net0 > 0
                      then net0 else freight0),
          misc = misc0, duty = duty0, discount = discount0, net = net0\<rparr>)"

datatype line_class = TRANSPORT | DUTY_TAX | CREDIT_ADJUST | MISC

definition AMT_TOL :: rat where
  "AMT_TOL = 1 / 100"

definition classify :: "amounts \<Rightarrow> line_class" where
  "classify a =
     (let freight_like = freight a + misc a + discount a;
          is_transport = (freight_like > AMT_TOL \<and> \<bar>duty a\<bar> < AMT_TOL);
          is_duty_tax = (\<bar>duty a\<bar> > AMT_TOL \<and> \<bar>freight a\<bar> + \<bar>misc a\<bar> < AMT_TOL);
          is_credit = (net a < - AMT_TOL)
      in if is_transport then TRANSPORT
         else if is_duty_tax then DUTY_TAX
         else if is_credit then CREDIT_ADJUST
         else MISC)"

definition row_class :: "lib \<Rightarrow> row list \<Rightarrow> row \<Rightarrow> line_class" where
  "row_class L df r = classify (row_amounts L df r)"

definition row_net :: "lib \<Rightarrow> row list \<Rightarrow> row \<Rightarrow> rat" where
  "row_net L df r = net (row_amounts L df r)"

text \<open>\<open>_is_return_service\<close>: false on an empty string, a zero and a null.\<close>

definition return_keywords :: "string list" where
  "return_keywords = [''RETURN'', ''RMGR'', ''RMA'', ''REVERSE'', ''RETURNMANAGER'']"

definition is_return_service :: "lib \<Rightarrow> cell \<Rightarrow> bool" where
  "is_return_service L service_description =
     (if service_description = CStr [] \<or> service_description = CNum 0 \<or>
         service_description = CNull
      then False
      else list_ex (\<lambda>keyword. contains (upper (py_str L service_description)) keyword)
             return_keywords)"

definition service_columns :: "string list" where
  "service_columns =
     [''Service Description'', ''Service Type'', ''Service'', ''Svc Desc'', ''Service Code'',
      ''Svc Type'', ''Svc Code'']"

text \<open>\<open>service_col\<close>: the first of the service columns that the table has.\<close>

definition service_col :: "row list \<Rightarrow> string option" where
  "service_col df = List.find (in_columns df) service_columns"

definition service_cell :: "row \<Rightarrow> string \<Rightarrow> cell" where
  "service_cell r col = (case r col of None \<Rightarrow> CNull | Some c \<Rightarrow> c)"

definition is_original_plus_return_pair :: "lib \<Rightarrow> row list \<Rightarrow> row list \<Rightarrow> bool" where
  "is_original_plus_return_pair L df duplicate_rows =
     (case duplicate_rows of
        [r1, r2] \<Rightarrow>
          (case service_col df of
             None \<Rightarrow> False
           | Some col \<Rightarrow>
               (if is_return_service L (service_cell r1 col) then (1::nat) else 0) +
               (if is_return_service L (service_cell r2 col) then 1 else 0) = 1)
      | _ \<Rightarrow> False)"

fun list_max :: "rat list \<Rightarrow> rat" where
  "list_max [] = 0"
| "list_max (x # xs) = fold max xs x"

text \<open>The \<open>Date\<close> of a duplicate finding: empty when the first row has no ship date,
  else the formatted date; \<open>strftime\<close> of NaT raises.\<close>

definition dup_date :: "lib \<Rightarrow> row \<Rightarrow> error + string" where
  "dup_date L first_row =
     (case notna_cell first_row ''Shipment Date'' of
        None \<Rightarrow> Inr []
      | Some c \<Rightarrow>
          (case to_datetime L c of
             None \<Rightarrow> Inl ValueError
           | Some t \<Rightarrow> Inr (strftime_ymd t)))"

text \<open>\<open>refund_estimate\<close> and \<open>dispute_reason\<close> from the net amounts of the transport
  lines of a group, of which there are at least two.\<close>

definition dup_refund :: "lib \<Rightarrow> rat list \<Rightarrow> rat" where
  "dup_refund L transport_nets =
     (if length (remdups (map (round2 L) transport_nets)) > 1
      then sum_list transport_nets - list_max transport_nets
      else hd transport_nets * (of_nat (length transport_nets) - 1))"

definition dup_reason :: "lib \<Rightarrow> rat list \<Rightarrow> string" where
  "dup_reason L transport_nets =
     (if length (remdups (map (round2 L) transport_nets)) > 1
      then ''Multiple freight charges ('' @ show_nat (length transport_nets) @
           '' lines with different amounts)''
      else ''Duplicate freight billing ('' @ show_nat (length transport_nets) @
           '' identical charges)'')"

text \<open>\<open>duplicate_rows\<close>: the rows of a normalized tracking number, and the net amounts
  of its transport lines.\<close>

definition group_rows :: "lib \<Rightarrow> row list \<Rightarrow> string \<Rightarrow> row list" where
  "group_rows L df tracking_num = filter (\<lambda>r. key_tracking L r = tracking_num) df"

definition transport_nets_of :: "lib \<Rightarrow> row list \<Rightarrow> string \<Rightarrow> rat list" where
  "transport_nets_of L df tracking_num =
     map (row_net L df) (filter (\<lambda>r. row_class L df r = TRANSPORT) (group_rows L df tracking_num))"

text \<open>The body of the loop over the duplicated tracking numbers.\<close>

definition group_findings :: "lib \<Rightarrow> row list \<Rightarrow> string \<Rightarrow> error + finding list" where
  "group_findings L df tracking_num =
     (if tracking_num = [] then Inr []
      else
        (let duplicate_rows = group_rows L df tracking_num in
         if is_original_plus_return_pair L df duplicate_rows then Inr []
         else
           (let transport_rows = filter (\<lambda>r. row_class L df r = TRANSPORT) duplicate_rows;
                duty_tax_rows = filter (\<lambda>r. row_class L df r = DUTY_TAX) duplicate_rows;
                num_transport = length transport_rows;
                num_duty_tax = length duty_tax_rows
            in if num_transport = 1 \<and> num_duty_tax = 1 then Inr []
               else if num_transport > 1 then
                 (let transport_nets = map (row_net L df) transport_rows;
                      freight_total = sum_list transport_nets;
                      duty_tax_total = sum_list (map (row_net L df) duty_tax_rows);
                      net_landed = freight_total + duty_tax_total;
                      first_row = hd duplicate_rows
                  in case dup_date L first_row of
                       Inl e \<Rightarrow> Inl e
                     | Inr ds \<Rightarrow>
                         Inr [\<lparr>Error_Type = ''Duplicate Tracking'',
                               Tracking_Number = tracking_cell first_row,
                               Date = ds,
                               Carrier = get_cell first_row ''Carrier'',
                               Service_Type = get_cell first_row ''Service Type'',
                               Dispute_Reason = dup_reason L transport_nets,
                               Refund_Estimate = Fin (dup_refund L transport_nets),
                               Notes = ''Transport: '' @ show_nat num_transport @
                                       '', Duty/Tax: '' @ show_nat num_duty_tax @
                                       '', Landed: $'' @ fmt_fixed L 2 net_landed\<rparr>])
               else Inr [])))"

text \<open>\<open>duplicates.index\<close>: the normalized tracking numbers that occur more than once,
  the most frequent first, equally frequent ones in the order of their first rows.\<close>

definition dup_keys :: "lib \<Rightarrow> row list \<Rightarrow> string list" where
  "dup_keys L df =
     (let keys = map (key_tracking L) df
      in sort_key (\<lambda>k. - int (count_list keys k))
           (filter (\<lambda>k. count_list keys k > 1) (rev (remdups (rev keys)))))"

text \<open>The findings a call leaves behind: none when it raised.\<close>

definition emitted :: "error + finding list \<Rightarrow> finding list" where
  "emitted x = (case x of Inl e \<Rightarrow> [] | Inr fs \<Rightarrow> fs)"

text \<open>A loop that appends findings and stops at the first exception.\<close>

fun collect :: "('a \<Rightarrow> error + 'b list) \<Rightarrow> 'a list \<Rightarrow> error + 'b list" where
  "collect f [] = Inr []"
| "collect f (x # xs) =
     (case f x of
        Inl e \<Rightarrow> Inl e
      | Inr ys \<Rightarrow> (case collect f xs of Inl e \<Rightarrow> Inl e | Inr zs \<Rightarrow> Inr (ys @ zs)))"

definition check_duplicate_tracking :: "lib \<Rightarrow> row list \<Rightarrow> error + finding list" where
  "check_duplicate_tracking L df =
     (if df = [] \<or> \<not> in_columns df ''Tracking Number'' then Inr []
      else collect (group_findings L df) (dup_keys L df))"

section \<open>Disputable-surcharge classifier\<close>

subsection \<open>Parsing the merged surcharge text (\<open>parse_merged\<close>)\<close>

text \<open>\<open>re.split(r, s)\<close> for a pattern that matches no empty string: \<open>acc\<close> is the
  piece read so far, in reverse.\<close>

function re_split :: "rx \<Rightarrow> char option \<Rightarrow> string \<Rightarrow> string \<Rightarrow> string list" where
  "re_split r p acc [] = [rev acc]"
| "re_split r p acc (c # cs) =
     (case rmatch r (p, c # cs) of
        [] \<Rightarrow> re_split r (Some c) (c # acc) cs
      | q # _ \<Rightarrow>
          if length (snd q) < length (c # cs) then rev acc # re_split r (fst q) [] (snd q)
          else re_split r (Some c) (c # acc) cs)"
  by pat_completeness auto
termination
  by (relation "measure (\<lambda>(r, p, acc, s). length s)") auto

definition split_rx :: rx where
  \<comment> \<open>\<open>\s*[|;,]\s*\<close>\<close>
  "split_rx = cats [ws, Cls (\<lambda>c. c = CHR ''|'' \<or> c = CHR '';'' \<or> c = CHR '',''), ws]"

definition number_rx :: rx where
  \<comment> \<open>\<open>-?\d+(?:\.\d+)?\<close>\<close>
  "number_rx = cats [opt (Lit CHR ''-''), plus dg, opt (cats [Lit CHR ''.'', plus dg])]"

definition label_sep_rx :: rx where
  \<comment> \<open>\<open>[\s:]\s*\$?\s*\<close>\<close>
  "label_sep_rx = cats [Cls (\<lambda>c. is_space c \<or> c = CHR '':''), ws, opt (Lit CHR ''$''), ws]"

definition blank_pre_rx :: rx where
  \<comment> \<open>\<open>\s*[:;]?\s*\$?\s*\<close>\<close>
  "blank_pre_rx = cats [ws, opt (Cls (\<lambda>c. c = CHR '':'' \<or> c = CHR '';'')), ws,
                        opt (Lit CHR ''$''), ws]"

text \<open>\<open>re.search(r'(.+?)' + pre + '(' + grp + ')', s)\<close>, giving groups 1 and 2: the
  leftmost start, there the shortest group 1, of characters other than a newline, after
  which the rest of the pattern matches. \<open>acc\<close> is group 1 so far, in reverse.\<close>

fun lazy_ext :: "rx \<Rightarrow> rx \<Rightarrow> string \<Rightarrow> string \<Rightarrow> (string \<times> string) option" where
  "lazy_ext pre grp acc [] =
     (case first_group grp (rmatch pre (Some (hd acc), [])) of
        Some g \<Rightarrow> Some (rev acc, g)
      | None \<Rightarrow> None)"
| "lazy_ext pre grp acc (c # cs) =
     (case first_group grp (rmatch pre (Some (hd acc), c # cs)) of
        Some g \<Rightarrow> Some (rev acc, g)
      | None \<Rightarrow> if c = CHR 0x0A then None else lazy_ext pre grp (c # acc) cs)"

fun search_lazy :: "rx \<Rightarrow> rx \<Rightarrow> string \<Rightarrow> (string \<times> string) option" where
  "search_lazy pre grp [] = None"
| "search_lazy pre grp (c # cs) =
     (case (if c = CHR 0x0A then None else lazy_ext pre grp [c] cs) of
        Some m \<Rightarrow> Some m
      | None \<Rightarrow> search_lazy pre grp cs)"

text \<open>\<open>re.search('^' + pre + '(' + grp + ')\s*$', s)\<close>, giving group 1; \<open>$\<close> stands at
  the end and before a last newline.\<close>

definition at_end :: "char option \<times> string \<Rightarrow> bool" where
  "at_end q = (snd q = [] \<or> snd q = [CHR 0x0A])"

fun first_group_end :: "rx \<Rightarrow> char option \<times> string \<Rightarrow> (char option \<times> string) list
                         \<Rightarrow> string option" where
  "first_group_end post q [] = None"
| "first_group_end post q (q' # qs) =
     (if list_ex at_end (rmatch post q')
      then Some (take (length (snd q) - length (snd q')) (snd q))
      else first_group_end post q qs)"

fun anchored_group :: "rx \<Rightarrow> rx \<Rightarrow> (char option \<times> string) list \<Rightarrow> string option" where
  "anchored_group grp post [] = None"
| "anchored_group grp post (q # qs) =
     (case first_group_end post q (rmatch grp q) of
        Some g \<Rightarrow> Some g
      | None \<Rightarrow> anchored_group grp post qs)"

definition BLANK :: string where
  "BLANK = ''BLANK DESCRIPTION CHARGE''"

text \<open>One part of the split text: the pair it adds to \<open>out\<close>, if any.\<close>

definition parse_part :: "lib \<Rightarrow> string \<Rightarrow> (string \<times> pnum) list" where
  "parse_part L p =
     (if strip p = [] then []
      else
        (case search_lazy label_sep_rx number_rx p of
           Some (g1, g2) \<Rightarrow>
             (let label_text = strip g1;
                  desc = (if label_text \<in> set ['':'', ''-'', ''.'', []] then BLANK
                          else canonize label_text)
              in case float_str L g2 of
                   None \<Rightarrow> []
                 | Some amt \<Rightarrow> if amt \<noteq> 0 then [(desc, Fin amt)] else [])
         | None \<Rightarrow>
             (case anchored_group number_rx ws (rmatch blank_pre_rx (None, p)) of
                Some g \<Rightarrow>
                  (case float_str L g of
                     None \<Rightarrow> []
                   | Some amt \<Rightarrow> if amt \<noteq> 0 then [(BLANK, Fin amt)] else [])
              | None \<Rightarrow> [])))"

text \<open>\<open>parse_merged(row.get('Surcharge_Details', ''))\<close>: nothing for an absent column,
  an empty string, a zero and a null.\<close>

definition parse_merged :: "lib \<Rightarrow> cell \<Rightarrow> (string \<times> pnum) list" where
  "parse_merged L text =
     (if text = CStr [] \<or> text = CNum 0 \<or> lower (strip (py_str L text)) = ''nan'' then []
      else concat (map (parse_part L) (re_split split_rx None [] (py_str L text))))"

subsection \<open>What a row gives to the rules\<close>

text \<open>\<open>_get_first\<close> with no default (\<open>None\<close>), and \<open>_get_date\<close>.\<close>

fun get_first :: "lib \<Rightarrow> row \<Rightarrow> string list \<Rightarrow> cell option" where
  "get_first L r [] = None"
| "get_first L r (c # cs) =
     (case notna_cell r c of
        Some v \<Rightarrow> if strip (py_str L v) \<noteq> [] then Some v else get_first L r cs
      | None \<Rightarrow> get_first L r cs)"

definition get_date :: "lib \<Rightarrow> row \<Rightarrow> string list \<Rightarrow> int option" where
  "get_date L r candidates =
     (case get_first L r candidates of None \<Rightarrow> None | Some raw \<Rightarrow> to_datetime L raw)"

text \<open>\<open>str(self._get_first(row, service_candidates, '') or '')\<close>.\<close>

definition service_type_of :: "lib \<Rightarrow> row \<Rightarrow> string" where
  "service_type_of L r =
     (case get_first L r [''Service Type'', ''Service Description''] of
        None \<Rightarrow> []
      | Some v \<Rightarrow> if v = CNum 0 then [] else py_str L v)"

text \<open>\<open>_get_dimension\<close>: the first candidate column that holds a positive number.\<close>

fun get_dimension_from :: "lib \<Rightarrow> row \<Rightarrow> string list \<Rightarrow> rat" where
  "get_dimension_from L r [] = 0"
| "get_dimension_from L r (col_name # cols) =
     (case notna_cell r col_name of
        Some (CNum q) \<Rightarrow> if q > 0 then q else get_dimension_from L r cols
      | Some (CStr s) \<Rightarrow>
          (if strip s \<noteq> [] then
             (case to_numeric L (strip s) of
                Some q \<Rightarrow> if q > 0 then q else get_dimension_from L r cols
              | None \<Rightarrow> get_dimension_from L r cols)
           else get_dimension_from L r cols)
      | _ \<Rightarrow> get_dimension_from L r cols)"

definition dim_length :: "lib \<Rightarrow> row \<Rightarrow> rat" where
  "dim_length L r = get_dimension_from L r
     [''Dimmed Length'', ''Length'', ''Length (in)'', ''Pkg Length'', ''Package Length'', ''Len'']"

definition dim_width :: "lib \<Rightarrow> row \<Rightarrow> rat" where
  "dim_width L r = get_dimension_from L r
     [''Dimmed Width'', ''Width'', ''Width (in)'', ''Pkg Width'', ''Package Width'', ''Wid'']"

definition dim_height :: "lib \<Rightarrow> row \<Rightarrow> rat" where
  "dim_height L r = get_dimension_from L r
     [''Dimmed Height'', ''Height'', ''Height (in)'', ''Pkg Height'', ''Package Height'', ''Hgt'']"

text \<open>\<open>dims = sorted([L, W, H], reverse=True)\<close> and its three entries.\<close>

definition dims :: "lib \<Rightarrow> row \<Rightarrow> rat list" where
  "dims L r = rev (sort [dim_length L r, dim_width L r, dim_height L r])"

definition longest :: "lib \<Rightarrow> row \<Rightarrow> rat" where
  "longest L r = dims L r ! 0"

definition second :: "lib \<Rightarrow> row \<Rightarrow> rat" where
  "second L r = dims L r ! 1"

definition third :: "lib \<Rightarrow> row \<Rightarrow> rat" where
  "third L r = dims L r ! 2"

definition girth :: "lib \<Rightarrow> row \<Rightarrow> rat" where
  "girth L r = 2 * (second L r + third L r)"

definition actual_wt :: "lib \<Rightarrow> row \<Rightarrow> rat" where
  "actual_wt L r = get_float_value L r
     [''Actual Weight'', ''Original Weight'', ''Shipment Actual Weight'', ''Package Weight'',
      ''Weight'']"

definition billed_wt :: "lib \<Rightarrow> row \<Rightarrow> rat" where
  "billed_wt L r = get_float_value L r
     [''Billed Weight'', ''Shipment Rated Weight'', ''Rated Weight'', ''Billable Weight'',
      ''Chargeable Weight'']"

definition dim_wt :: "lib \<Rightarrow> row \<Rightarrow> int" where
  "dim_wt L r =
     (let su = upper (service_type_of L r);
          dim_divisor = (if contains su ''INTERNATIONAL'' \<or> contains su ''INTL''
                         then 166 else (139::rat))
      in if dim_length L r > 0 \<and> dim_width L r > 0 \<and> dim_height L r > 0
         then \<lceil>dim_length L r * dim_width L r * dim_height L r / dim_divisor\<rceil>
         else 0)"

text \<open>\<open>is_international\<close> of the customs and fuel rules.\<close>

definition intl_codes :: "string list" where
  "intl_codes = [''OA'', ''LO'', ''IP'', ''IE'', ''IF'', ''IG'', ''SG'', ''F1'', ''FO'', ''IX'', ''XS'']"

definition is_international :: "string \<Rightarrow> bool" where
  "is_international service_upper =
     (list_ex (\<lambda>indicator. contains service_upper indicator)
        [''INTERNATIONAL'', ''INTL'', ''GLOBAL'', ''WORLD'', ''EXPORT'', ''IMPORT''] \<or>
      list_ex (\<lambda>code. prefix code service_upper \<or> contains service_upper ('' '' @ code) \<or>
                       code = service_upper) intl_codes)"

text \<open>Truthiness of a cell, and \<open>tracking_total_net_charge\<close> as a function of the key:
  the summed net charge of the rows that carry the tracking cell. A null is truthy but
  is found under no key.\<close>

definition truthy :: "cell \<Rightarrow> bool" where
  "truthy c = (c \<noteq> CStr [] \<and> c \<noteq> CNum 0)"

definition net_charge_cols :: "string list" where
  "net_charge_cols = [''Net Charge Amount USD'', ''Net Charge'', ''Total Charges'']"

definition tracking_total_net_charge :: "lib \<Rightarrow> row list \<Rightarrow> cell \<Rightarrow> rat option" where
  "tracking_total_net_charge L df tracking =
     (if tracking = CNull \<or> \<not> truthy tracking \<or>
         \<not> list_ex (\<lambda>r. get_cell r ''Tracking Number'' = tracking) df
      then None
      else Some (sum_list (map (\<lambda>r. get_float_value L r net_charge_cols)
                   (filter (\<lambda>r. get_cell r ''Tracking Number'' = tracking) df))))"

text \<open>Arithmetic and comparison of floats with NaN; \<open>:.kf\<close> of a float.\<close>

definition pn_scale :: "pnum \<Rightarrow> rat \<Rightarrow> pnum" where
  "pn_scale x k = (case x of NaN \<Rightarrow> NaN | Fin q \<Rightarrow> Fin (q * k))"

definition pn_add :: "pnum \<Rightarrow> pnum \<Rightarrow> pnum" where
  "pn_add x y = (case (x, y) of (Fin a, Fin b) \<Rightarrow> Fin (a + b) | _ \<Rightarrow> NaN)"

definition pn_gt :: "pnum \<Rightarrow> rat \<Rightarrow> bool" where
  "pn_gt x k = (case x of NaN \<Rightarrow> False | Fin q \<Rightarrow> q > k)"

definition pn_lt :: "pnum \<Rightarrow> rat \<Rightarrow> bool" where
  "pn_lt x k = (case x of NaN \<Rightarrow> False | Fin q \<Rightarrow> q < k)"

definition fmt_num :: "lib \<Rightarrow> nat \<Rightarrow> pnum \<Rightarrow> string" where
  "fmt_num L k x = (case x of NaN \<Rightarrow> ''nan'' | Fin q \<Rightarrow> fmt_fixed L k q)"

text \<open>\<open>strftime('%A')\<close> and the month of a timestamp.\<close>

definition day_name :: "int \<Rightarrow> string" where
  "day_name ts =
     [''Monday'', ''Tuesday'', ''Wednesday'', ''Thursday'', ''Friday'', ''Saturday'', ''Sunday'']
       ! weekday ts"

definition month_of :: "int \<Rightarrow> int" where
  "month_of ts = (case civil_from_days (ts div day_secs) of (y, m, d) \<Rightarrow> m)"

subsection \<open>The rule of each canonical category\<close>

text \<open>
  The \<open>if\<close>/\<open>elif\<close> chain over \<open>desc\<close> for one surcharge of a row: \<open>None\<close> when
  \<open>dispute_reason\<close> stays unset, else \<open>dispute_reason\<close>, \<open>refund_estimate\<close> and \<open>notes\<close>.
  The fuel and the declared-value rule call \<open>float\<close> on a cell and may raise.
\<close>

definition rule_residential :: "lib \<Rightarrow> row \<Rightarrow> pnum \<Rightarrow> (string \<times> pnum \<times> string) option" where
  "rule_residential L r amount =
     (let is_recipient_business =
            has_business_indicators (upper (get_full_destination_info L r));
          is_shipper_business = has_business_indicators (upper (get_full_shipper_info L r))
      in if is_recipient_business then
           Some (''Residential surcharge applied to business address'', amount,
                 if is_shipper_business
                 then ''Both recipient and shipper have business indicators (B2B)''
                 else ''Recipient address has business indicators'')
         else None)"

definition rule_weekend :: "lib \<Rightarrow> row \<Rightarrow> pnum \<Rightarrow> (string \<times> pnum \<times> string) option" where
  "rule_weekend L r amount =
     (case get_date L r [''Actual Delivery Date'', ''Shipment Delivery Date (mm/dd/yyyy)'',
                         ''Delivery Date''] of
        None \<Rightarrow> None
      | Some delivery_date \<Rightarrow>
          if weekday delivery_date < 5 then
            Some (''Weekend surcharge but delivery/pickup occurred on weekday'', amount,
                  ''Date: '' @ day_name delivery_date)
          else None)"

definition ah_reason :: string where
  "ah_reason = ''Additional Handling charged but size/weight thresholds not met''"

definition rule_additional_handling ::
    "lib \<Rightarrow> row \<Rightarrow> pnum \<Rightarrow> (string \<times> pnum \<times> string) option" where
  "rule_additional_handling L r amount =
     (let needs_handling =
            (longest L r > 48 \<or> second L r > 30 \<or> longest L r + girth L r > 105 \<or>
             actual_wt L r \<ge> 50)
      in if \<not> needs_handling \<and> longest L r > 0 then
           Some (ah_reason, amount,
                 ''Dims '' @ fmt_fixed L 1 (longest L r) @ ''x'' @ fmt_fixed L 1 (second L r) @
                 ''x'' @ fmt_fixed L 1 (third L r) @ [CHR 0x22] @ '', Wt '' @
                 fmt_fixed L 1 (actual_wt L r) @ '' lb'')
         else None)"

definition rule_oversize :: "lib \<Rightarrow> row \<Rightarrow> pnum \<Rightarrow> (string \<times> pnum \<times> string) option" where
  "rule_oversize L r amount =
     (let length_plus_girth = longest L r + girth L r;
          is_oversize = (longest L r > 96 \<or> length_plus_girth > 130)
      in if \<not> is_oversize \<and> longest L r > 0 then
           Some (''Oversize charge applied but thresholds not met'', amount,
                 ''L='' @ fmt_fixed L 1 (longest L r) @ [CHR 0x22] @ '', L+G='' @
                 fmt_fixed L 1 length_plus_girth @ [CHR 0x22] @
                 '' (thresholds: >96'' @ [CHR 0x22] @ '' OR >130'' @ [CHR 0x22] @ '')'')
         else None)"

definition rule_peak :: "lib \<Rightarrow> row \<Rightarrow> pnum \<Rightarrow> (string \<times> pnum \<times> string) option" where
  "rule_peak L r amount =
     (let ship_date = (case r ''Shipment Date'' of None \<Rightarrow> None | Some c \<Rightarrow> to_datetime L c);
          su = upper (service_type_of L r)
      in if (case ship_date of None \<Rightarrow> False | Some t \<Rightarrow> month_of t \<notin> {11, 12, 1}) then
           Some (''Peak surcharge outside typical peak season (Nov-Jan)'', pn_scale amount (7 / 10), [])
         else if list_ex (\<lambda>p. contains su p) [''OVERNIGHT'', ''PRIORITY'', ''EXPRESS''] then
           Some (''Peak surcharge on premium service - review reasonableness'',
                 pn_scale amount (4 / 10), [])
         else None)"

definition rule_weight :: "lib \<Rightarrow> row \<Rightarrow> string \<Rightarrow> pnum \<Rightarrow> (string \<times> pnum \<times> string) option" where
  "rule_weight L r desc amount =
     (let correct_billable = max (of_int (round_half_even (actual_wt L r))) (of_int (dim_wt L r));
          over = billed_wt L r - correct_billable;
          first = (if dim_wt L r > 0 \<and> billed_wt L r > 0 \<and> over > 1 then
                     Some (''Billed weight appears '' @ fmt_fixed L 0 over @
                           '' lb over correct billable'',
                           pn_scale amount (8 / 10),
                           ''Actual '' @ fmt_fixed L 1 (actual_wt L r) @ '', DIM '' @
                           show_int (dim_wt L r) @ '' (ceil), Billed '' @
                           fmt_fixed L 0 (billed_wt L r))
                   else None)
      in if desc = ''OVERWEIGHT CHARGE'' \<and> 0 < actual_wt L r \<and> actual_wt L r < 150 then
           Some (''Overweight charge but actual weight '' @ fmt_fixed L 1 (actual_wt L r) @
                 '' lb (<150 lb threshold)'', amount,
                 (case first of None \<Rightarrow> [] | Some (reason, refund, nts) \<Rightarrow> nts))
         else first)"

definition rule_customs :: "lib \<Rightarrow> row \<Rightarrow> pnum \<Rightarrow> (string \<times> pnum \<times> string) option" where
  "rule_customs L r amount =
     (if \<not> is_international (upper (service_type_of L r)) then
        Some (''Customs/brokerage fee - verify necessity and accuracy'', pn_scale amount (5 / 10), [])
      else None)"

definition rule_fuel ::
    "lib \<Rightarrow> row list \<Rightarrow> row \<Rightarrow> pnum \<Rightarrow> error + (string \<times> pnum \<times> string) option" where
  "rule_fuel L df r amount =
     (let tracking = get_cell r ''Tracking Number'';
          net_charge0 =
            (case (if is_international (upper (service_type_of L r))
                   then tracking_total_net_charge L df tracking else None) of
               Some total_net \<Rightarrow> total_net
             | None \<Rightarrow> get_float_value L r net_charge_cols)
      in case (if net_charge0 = 0 then float_or0 L r ''Base Rate'' else Inr (Fin net_charge0)) of
           Inl e \<Rightarrow> Inl e
         | Inr NaN \<Rightarrow> Inr None
         | Inr (Fin net_charge) \<Rightarrow>
             if net_charge > 0 then
               (let pct = pn_scale amount (100 / net_charge)
                in if pn_gt pct 30 then
                     Inr (Some (''Fuel surcharge unusually high ('' @ fmt_num L 1 pct @
                                ''% of net charge)'',
                                pn_scale amount (3 / 10),
                                ''FSC $'' @ fmt_num L 2 amount @ '' / Net Charge $'' @
                                fmt_fixed L 2 net_charge))
                   else Inr None)
             else Inr None)"

definition rule_declared_value ::
    "lib \<Rightarrow> row \<Rightarrow> pnum \<Rightarrow> error + (string \<times> pnum \<times> string) option" where
  "rule_declared_value L r amount =
     (case float_or0 L r ''Declared Value'' of
        Inl e \<Rightarrow> Inl e
      | Inr dv \<Rightarrow>
          if pn_lt dv 100 then
            Inr (Some (''Declared value charge on low-value package ($'' @ fmt_num L 2 dv @ '')'',
                       amount, []))
          else Inr None)"

definition dispute_of ::
    "lib \<Rightarrow> row list \<Rightarrow> row \<Rightarrow> nat \<Rightarrow> string \<Rightarrow> pnum
       \<Rightarrow> error + (string \<times> pnum \<times> string) option" where
  "dispute_of L df r blank_desc_count desc amount =
     (if desc = BLANK then
        Inr (if blank_desc_count = 1 then
               Some (''Charge with no description - FedEx must provide reason for all charges'',
                     amount, ''Blank/missing surcharge description'')
             else None)
      else if desc = ''ADDRESS CORRECTION'' then
        Inr (Some (''Address correction fee - verify original label; often disputable'',
                   pn_scale amount (8 / 10), []))
      else if desc = ''RESIDENTIAL SURCHARGE'' then Inr (rule_residential L r amount)
      else if desc \<in> set [''SATURDAY DELIVERY'', ''SATURDAY PICKUP'', ''SUNDAY/WEEKEND CHARGE''] then
        Inr (rule_weekend L r amount)
      else if desc \<in> set [''RETURN FEE'', ''REDIRECT DELIVERY FEE'', ''HOLD AT LOCATION FEE''] then
        Inr (Some (desc @ '' - verify customer/carrier request vs. error'',
                   pn_scale amount (6 / 10), []))
      else if desc = ''BILLING ERROR FEE'' then
        Inr (Some (''Billing error should not be passed to customer'', amount, []))
      else if desc = ''ADDITIONAL HANDLING SURCHARGE'' then Inr (rule_additional_handling L r amount)
      else if desc = ''OVERSIZE CHARGE'' then Inr (rule_oversize L r amount)
      else if desc = ''UNAUTHORIZED PACKAGE CHARGE'' then
        Inr (Some (''Unauthorized package charge - verify proper authorization/labels'',
                   pn_scale amount (8 / 10), []))
      else if desc \<in> set [''PEAK ADDITIONAL HANDLING'', ''PEAK OVERSIZE'', ''PEAK RESIDENTIAL'',
                            ''PEAK SURCHARGE''] then
        Inr (rule_peak L r amount)
      else if desc = ''SERVICE FAILURE ADJUSTMENT'' then
        Inr (Some (''Service failure should be refunded, not charged'', amount, []))
      else if desc \<in> set [''WEIGHT CORRECTION'', ''DIM WEIGHT ADJUSTMENT'', ''OVERWEIGHT CHARGE''] then
        Inr (rule_weight L r desc amount)
      else if desc = ''CUSTOMS/BROKERAGE FEE'' then Inr (rule_customs L r amount)
      else if desc = ''FAILED PICKUP/DELIVERY FEE'' then
        Inr (Some (''Failed delivery/pickup - verify carrier attempts & contact info'',
                   pn_scale amount (7 / 10), []))
      else if desc = ''FUEL SURCHARGE'' then rule_fuel L df r amount
      else if desc = ''DECLARED VALUE CHARGE'' then rule_declared_value L r amount
      else if desc = ''MISSING DOCUMENTATION FEE'' then
        Inr (Some (''Missing documentation fee - verify paperwork actually missing'',
                   pn_scale amount (7 / 10), []))
      else Inr None)"

subsection \<open>The loop over the rows and the consolidation\<close>

text \<open>A dash outside ASCII in a message of the source is written as a hyphen.\<close>

definition surcharge_columns :: "string list" where
  "surcharge_columns =
     [''Address Correction'', ''Residential Surcharge'',
      ''Saturday Delivery'', ''Saturday Pickup'', ''Sunday Delivery'', ''Return Fee'',
      ''Redirect Fee'', ''Hold at Location'', ''Additional Handling'', ''Oversize Charge'',
      ''Overweight Charge'', ''Peak Surcharge'', ''Peak Additional Handling'', ''Peak Oversize'',
      ''Peak Residential'', ''Fuel Surcharge'', ''Declared Value Charge'', ''Brokerage Fee'',
      ''Duty and Tax'', ''Entry Preparation'', ''Clearance Entry'', ''Missing Documentation'',
      ''Attempted Delivery'', ''Undeliverable'', ''Weight Correction'', ''DIM Weight Adjustment'',
      ''Unauthorized Package'']"

text \<open>\<open>indiv\<close>: the surcharge columns of the row that hold an amount other than zero;
  a cell on which \<open>float\<close> raises is passed over.\<close>

definition indiv :: "lib \<Rightarrow> row \<Rightarrow> (string \<times> pnum) list" where
  "indiv L r =
     concat (map (\<lambda>col. if r col = None then []
                          else (case float_or0 L r col of
                                  Inl e \<Rightarrow> []
                                | Inr amt \<Rightarrow> if amt \<noteq> Fin 0 then [(canonize col, amt)] else []))
                 surcharge_columns)"

definition surcharges_of :: "lib \<Rightarrow> row \<Rightarrow> (string \<times> pnum) list" where
  "surcharges_of L r = parse_merged L (get_cell r ''Surcharge_Details'') @ indiv L r"

definition row_date :: "lib \<Rightarrow> row \<Rightarrow> string" where
  "row_date L r =
     (case (case r ''Shipment Date'' of None \<Rightarrow> None | Some c \<Rightarrow> to_datetime L c) of
        None \<Rightarrow> []
      | Some ship_date \<Rightarrow> strftime_ymd ship_date)"

definition surcharge_finding ::
    "lib \<Rightarrow> row \<Rightarrow> string \<Rightarrow> pnum \<Rightarrow> string \<times> pnum \<times> string \<Rightarrow> finding" where
  "surcharge_finding L r desc amount d =
     (case d of (reason, refund, nts) \<Rightarrow>
        \<lparr>Error_Type = ''Disputable Surcharge'',
         Tracking_Number = get_cell r ''Tracking Number'',
         Date = row_date L r,
         Carrier = CStr (upper (get_str L r ''Carrier'')),
         Service_Type = CStr (service_type_of L r),
         Dispute_Reason = reason,
         Refund_Estimate = refund,
         Notes = desc @ '' $'' @ fmt_num L 2 amount @
                 (if nts \<noteq> [] then '' | '' @ nts else [])\<rparr>)"

text \<open>The loop over the surcharges of a row: the findings it appends, and whether it
  ran to its end (an exception leaves the findings appended before it).\<close>

fun eval_surcharges ::
    "lib \<Rightarrow> row list \<Rightarrow> row \<Rightarrow> nat \<Rightarrow> (string \<times> pnum) list \<Rightarrow> finding list \<times> bool" where
  "eval_surcharges L df r blank_desc_count [] = ([], True)"
| "eval_surcharges L df r blank_desc_count ((desc, amount) # rest) =
     (case dispute_of L df r blank_desc_count desc amount of
        Inl e \<Rightarrow> ([], False)
      | Inr d \<Rightarrow>
          (case eval_surcharges L df r blank_desc_count rest of
             (gs, ok) \<Rightarrow>
               ((case d of None \<Rightarrow> [] | Some x \<Rightarrow> [surcharge_finding L r desc amount x]) @ gs,
                ok)))"

text \<open>The duplicate-surcharge finding of a canonical label that the row holds \<open>cnt\<close>
  times with \<open>bucket[desc] = total_amt\<close>.\<close>

definition duplicate_surcharge_finding ::
    "lib \<Rightarrow> row \<Rightarrow> string \<Rightarrow> nat \<Rightarrow> pnum \<Rightarrow> finding" where
  "duplicate_surcharge_finding L r desc cnt total_amt =
     \<lparr>Error_Type = ''Disputable Surcharge'',
      Tracking_Number = get_cell r ''Tracking Number'',
      Date = row_date L r,
      Carrier = CStr (upper (get_str L r ''Carrier'')),
      Service_Type = CStr (service_type_of L r),
      Dispute_Reason =
        (if desc = BLANK then
           ''Multiple charges ('' @ show_nat cnt @ ''x) with blank descriptions - '' @
           ''FedEx must provide reason for all charges''
         else ''Duplicate surcharge appears '' @ show_nat cnt @ '' times''),
      Refund_Estimate =
        (if desc = BLANK then total_amt
         else pn_scale total_amt ((of_nat cnt - 1) / of_nat cnt)),
      Notes =
        (if desc = BLANK then
           ''Blank description charges billed '' @ show_nat cnt @ ''x, total $'' @
           fmt_num L 2 total_amt
         else desc @ '' billed '' @ show_nat cnt @ ''x, total $'' @ fmt_num L 2 total_amt)\<rparr>"

definition duplicate_surcharges :: "lib \<Rightarrow> row \<Rightarrow> (string \<times> pnum) list \<Rightarrow> finding list" where
  "duplicate_surcharges L r surcharges =
     (let seen_desc = map fst surcharges
      in concat (map (\<lambda>desc.
           if count_list seen_desc desc > 1 then
             [duplicate_surcharge_finding L r desc (count_list seen_desc desc)
                (foldl pn_add (Fin 0) (map snd (filter (\<lambda>p. fst p = desc) surcharges)))]
           else [])
         (rev (remdups (rev seen_desc)))))"

text \<open>The body of the \<open>try\<close> for one row, with its \<open>except Exception: continue\<close>.\<close>

definition row_findings :: "lib \<Rightarrow> row list \<Rightarrow> row \<Rightarrow> finding list" where
  "row_findings L df r =
     (if contains (upper (service_type_of L r)) ''RMGR'' then []
      else
        (let surcharges = surcharges_of L r in
         if surcharges = [] then []
         else
           (let blank_desc_count = length (filter (\<lambda>p. fst p = BLANK) surcharges)
            in case eval_surcharges L df r blank_desc_count surcharges of
                 (fs, ok) \<Rightarrow> if ok then fs @ duplicate_surcharges L r surcharges else fs)))"

text \<open>The consolidation of the duplicate-surcharge findings by tracking number, the keys
  in the order of their first finding (null tracking numbers are taken as one key).\<close>

definition is_dup_surcharge :: "finding \<Rightarrow> bool" where
  "is_dup_surcharge f = prefix ''Duplicate surcharge'' (Dispute_Reason f)"

fun join_bar :: "string list \<Rightarrow> string" where
  "join_bar [] = []"
| "join_bar [x] = x"
| "join_bar (x # xs) = x @ '' | '' @ join_bar xs"

definition consolidate_group :: "cell \<Rightarrow> finding list \<Rightarrow> finding" where
  "consolidate_group tracking grp =
     (if length grp = 1 then hd grp
      else \<lparr>Error_Type = ''Disputable Surcharge'',
            Tracking_Number = tracking,
            Date = Date (hd grp),
            Carrier = Carrier (hd grp),
            Service_Type = Service_Type (hd grp),
            Dispute_Reason = ''Duplicate surcharge appears '' @ show_nat (length grp) @ '' times'',
            Refund_Estimate = foldl pn_add (Fin 0) (map Refund_Estimate grp),
            Notes = join_bar (map Notes grp)\<rparr>)"

definition consolidate :: "finding list \<Rightarrow> finding list" where
  "consolidate findings =
     (let dup_surcharge_findings = filter is_dup_surcharge findings;
          other_findings = filter (\<lambda>f. \<not> is_dup_surcharge f) findings;
          keys = rev (remdups (rev (map Tracking_Number dup_surcharge_findings)))
      in other_findings @
         map (\<lambda>tracking. consolidate_group tracking
                (filter (\<lambda>f. Tracking_Number f = tracking) dup_surcharge_findings)) keys)"

definition check_disputable_surcharges :: "lib \<Rightarrow> row list \<Rightarrow> finding list" where
  "check_disputable_surcharges L df = consolidate (concat (map (row_findings L df) df))"

section \<open>Filing-window classifier (\<open>filter_by_filing_window\<close>)\<close>

text \<open>\<open>Actual:\s*\<close> and the group
  \<open>\d{4}-\d{2}-\d{2}(?:[T\s][\d:]+(?:[+-]\d{2}:?\d{2}|Z)?)?|\d{1,2}/\d{1,2}/\d{4}\<close>.\<close>

definition actual_pre :: rx where
  "actual_pre = cats [word ''Actual:'', ws]"

definition actual_grp :: rx where
  "actual_grp =
     Alt (cats [dg, dg, dg, dg, Lit CHR ''-'', dg, dg, Lit CHR ''-'', dg, dg,
                opt (cats [Cls (\<lambda>c. c = CHR ''T'' \<or> is_space c),
                           plus (Cls (\<lambda>c. is_digit c \<or> c = CHR '':'')),
                           opt (Alt (cats [Cls (\<lambda>c. c = CHR ''+'' \<or> c = CHR ''-''), dg, dg,
                                           opt (Lit CHR '':''), dg, dg])
                                    (Lit CHR ''Z''))])])
         (cats [dg, opt dg, Lit CHR ''/'', dg, opt dg, Lit CHR ''/'', dg, dg, dg, dg])"

text \<open>The text of group 1 when the pattern is found in the Notes of the row, if the
  table has Notes and the cell is not null.\<close>

definition actual_token :: "lib \<Rightarrow> row \<Rightarrow> string option" where
  "actual_token L r =
     (case r ''Notes'' of
        None \<Rightarrow> None
      | Some CNull \<Rightarrow> None
      | Some c \<Rightarrow> search_group actual_pre actual_grp None (py_str L c))"

text \<open>A parsed date: NaT, a timestamp without time zone, or one with a time zone
  (the instant in UTC).\<close>

datatype stamp = NaT | Naive int | Aware int

definition parse_stamp :: "lib \<Rightarrow> cell \<Rightarrow> stamp" where
  "parse_stamp L c =
     (case to_datetime L c of
        None \<Rightarrow> NaT
      | Some t \<Rightarrow> if tz_aware L c then Aware t else Naive t)"

text \<open>\<open>df['_delivery_date']\<close>: \<open>extract_actual_date\<close> of the Notes.\<close>

definition extract_actual_date :: "lib \<Rightarrow> row \<Rightarrow> stamp" where
  "extract_actual_date L r =
     (case actual_token L r of None \<Rightarrow> NaT | Some g \<Rightarrow> parse_stamp L (CStr g))"

datatype status = pending | within_window | expired | missing_date

text \<open>\<open>df['Error Type'].fillna('').str.upper()\<close>; \<open>None\<close> is the NaN that \<open>.str\<close> gives
  for a cell that is not a string, on which every \<open>str.contains(..., na=False)\<close> is false.\<close>

definition error_upper :: "row \<Rightarrow> string option" where
  "error_upper r =
     (case r ''Error Type'' of
        Some (CStr s) \<Rightarrow> Some (upper s)
      | Some CNull \<Rightarrow> Some []
      | _ \<Rightarrow> None)"

definition str_contains :: "rx \<Rightarrow> string option \<Rightarrow> bool" where
  "str_contains pat v = (case v of None \<Rightarrow> False | Some s \<Rightarrow> re_search pat s)"

text \<open>A parsed date column, NaT when the table lacks the column; \<open>a.fillna(b)\<close>.\<close>

definition date_column :: "lib \<Rightarrow> row \<Rightarrow> string \<Rightarrow> stamp" where
  "date_column L r col = (case r col of None \<Rightarrow> NaT | Some c \<Rightarrow> parse_stamp L c)"

definition fillna :: "stamp \<Rightarrow> stamp \<Rightarrow> stamp" where
  "fillna a b = (case a of NaT \<Rightarrow> b | _ \<Rightarrow> a)"



text \<open>One classification stage: the rows of the mask get their status from the
  reference date and the deadline in days, the others keep theirs. The stages run on
  tables without a zoned date only.\<close>

definition stage :: "bool \<Rightarrow> int \<Rightarrow> stamp \<Rightarrow> int \<Rightarrow> status \<Rightarrow> status" where
  "stage in_mask today ref_date deadline st =
     (if in_mask then
        (case ref_date of
           Naive d \<Rightarrow> if (today - d) div day_secs \<le> deadline then within_window else expired
         | _ \<Rightarrow> missing_date)
      else st)"

text \<open>The column \<open>_status\<close> of a row after the four stages; \<open>today\<close> is
  \<open>pd.Timestamp.now().normalize()\<close>.\<close>

definition filing_status :: "lib \<Rightarrow> int \<Rightarrow> row \<Rightarrow> status" where
  "filing_status L today r =
     (let eu = error_upper r;
          shipment_date = date_column L r ''Shipment Date'';
          invoice_date = date_column L r ''Invoice Date'';
          date0 = date_column L r ''Date'';
          delivery_date = extract_actual_date L r;
          st1 = stage (str_contains (word ''LATE DELIVERY'') eu) today delivery_date 15 pending;
          st2 = stage (str_contains (Alt (word ''LOST'') (word ''DAMAGE'')) eu \<and> st1 = pending)
                  today (fillna shipment_date date0) 60 st1;
          st3 = stage (str_contains (Alt (word ''DISPUTABLE SURCHARGE'') (word ''DUPLICATE'')) eu
                       \<and> st2 = pending)
                  today (fillna invoice_date date0) 180 st2
      in stage (st3 = pending) today (fillna invoice_date date0) 180 st3)"




section \<open>A library instance and example records\<close>

text \<open>
  The examples run the model on \<open>lib0\<close>, which behaves as Python and pandas do on the
  plain inputs the examples use: \<open>float\<close> and \<open>pd.to_numeric\<close> read a decimal literal
  with an optional sign, \<open>pd.to_datetime\<close> keeps a timestamp and reads an ISO date with
  an optional time of day and zone,
  a float is formatted with a fixed number of decimals by rounding half to even.
\<close>

definition digits_val :: "string \<Rightarrow> nat" where
  "digits_val s = foldl (\<lambda>a c. 10 * a + (of_char c - 48)) 0 s"

definition parse_decimal :: "string \<Rightarrow> rat option" where
  "parse_decimal s0 =
     (let s = strip s0;
          neg = (take 1 s = ''-'');
          body = (if neg then drop 1 s else s);
          ip = takeWhile is_digit body;
          rest = dropWhile is_digit body;
          fp = (if take 1 rest = ''.'' then drop 1 rest else rest)
      in if ip \<noteq> [] \<and> (rest = [] \<or> take 1 rest = ''.'') \<and> list_all is_digit fp
         then Some ((if neg then - 1 else 1) * (of_nat (digits_val (ip @ fp)) / 10 ^ length fp))
         else None)"

definition parse_iso_date :: "string \<Rightarrow> int option" where
  "parse_iso_date s =
     (if length s = 10 \<and> list_all is_digit (take 4 s) \<and> s ! 4 = CHR ''-'' \<and>
         list_all is_digit (take 2 (drop 5 s)) \<and> s ! 7 = CHR ''-'' \<and>
         list_all is_digit (drop 8 s)
      then (let y = int (digits_val (take 4 s)); m = int (digits_val (take 2 (drop 5 s)));
                d = int (digits_val (drop 8 s))
            in if 1 \<le> m \<and> m \<le> 12 \<and> 1 \<le> d \<and>
                  civil_from_days (days_from_civil y m d) = (y, m, d)
               then Some (days_from_civil y m d * day_secs) else None)
      else None)"

text \<open>\<open>YYYY-MM-DD\<close>, then perhaps \<open>T\<close> or a blank and \<open>HH:MM\<close> or \<open>HH:MM:SS\<close>, then
  perhaps \<open>Z\<close> or an offset \<open>+HH:MM\<close>, \<open>-HH:MM\<close>: the seconds (in UTC when there is a
  zone), and whether there is a zone.\<close>

definition two_digits :: "string \<Rightarrow> int option" where
  "two_digits s = (if length s = 2 \<and> list_all is_digit s then Some (int (digits_val s)) else None)"

definition parse_clock :: "string \<Rightarrow> int option" where
  "parse_clock s =
     (if length s = 5 \<and> s ! 2 = CHR '':'' then
        (case (two_digits (take 2 s), two_digits (drop 3 s)) of
           (Some h, Some m) \<Rightarrow> if h < 24 \<and> m < 60 then Some (h * 3600 + m * 60) else None
         | _ \<Rightarrow> None)
      else if length s = 8 \<and> s ! 2 = CHR '':'' \<and> s ! 5 = CHR '':'' then
        (case (two_digits (take 2 s), two_digits (take 2 (drop 3 s)), two_digits (drop 6 s)) of
           (Some h, Some m, Some sec) \<Rightarrow>
             if h < 24 \<and> m < 60 \<and> sec < 60 then Some (h * 3600 + m * 60 + sec) else None
         | _ \<Rightarrow> None)
      else None)"

definition parse_zone :: "string \<Rightarrow> int option" where
  "parse_zone z =
     (if z = ''Z'' then Some 0
      else if length z = 6 \<and> (z ! 0 = CHR ''+'' \<or> z ! 0 = CHR ''-'') then
        (case parse_clock (drop 1 z) of
           Some off \<Rightarrow> Some (if z ! 0 = CHR ''-'' then - off else off)
         | None \<Rightarrow> None)
      else None)"

definition parse_iso_stamp :: "string \<Rightarrow> (int \<times> bool) option" where
  "parse_iso_stamp s =
     (case parse_iso_date (take 10 s) of
        None \<Rightarrow> None
      | Some day \<Rightarrow>
          if length s = 10 then Some (day, False)
          else if s ! 10 = CHR ''T'' \<or> s ! 10 = CHR '' '' then
            (let clock = takeWhile (\<lambda>c. is_digit c \<or> c = CHR '':'') (drop 11 s);
                 zone = dropWhile (\<lambda>c. is_digit c \<or> c = CHR '':'') (drop 11 s)
             in case parse_clock clock of
                  None \<Rightarrow> None
                | Some secs \<Rightarrow>
                    if zone = [] then Some (day + secs, False)
                    else (case parse_zone zone of
                            None \<Rightarrow> None
                          | Some off \<Rightarrow> Some (day + secs - off, True)))
          else None)"

definition fmt_fixed0 :: "nat \<Rightarrow> rat \<Rightarrow> string" where
  "fmt_fixed0 k x =
     (let n = round_half_even (\<bar>x\<bar> * 10 ^ k);
          ip = show_nat (nat (n div 10 ^ k));
          fp = pad0 k (show_nat (nat (n mod 10 ^ k)))
      in (if x < 0 \<and> n \<noteq> 0 then ''-'' else []) @ ip @ (if k = 0 then [] else ''.'' @ fp))"

definition lib0 :: lib where
  "lib0 = \<lparr>str_other = (\<lambda>c. case c of CNum q \<Rightarrow> fmt_fixed0 1 q | CTime t \<Rightarrow> strftime_ymd t
                              | _ \<Rightarrow> ''nan''),
           float_str = parse_decimal,
           to_numeric = parse_decimal,
           to_datetime = (\<lambda>c. case c of CTime t \<Rightarrow> Some t
                                | CStr s \<Rightarrow> map_option fst (parse_iso_stamp s)
                                | _ \<Rightarrow> None),
           fmt_fixed = fmt_fixed0,
           round2 = (\<lambda>x. of_int (round_half_even (x * 100)) / 100),
           tz_aware = (\<lambda>c. case c of CStr s \<Rightarrow> (case parse_iso_stamp s of
                                                     Some (t, z) \<Rightarrow> z | None \<Rightarrow> False)
                             | _ \<Rightarrow> False)\<rparr>"

text \<open>A residential surcharge, the recipient a retail store, the shipper a private person.\<close>

definition target_row :: row where
  "target_row =
     [''Surcharge_Details'' \<mapsto> CStr ''Residential Surcharge: $5.25'',
      ''Recipient Name'' \<mapsto> CStr ''Target'',
      ''Shipper Name'' \<mapsto> CStr ''John Smith'',
      ''Tracking Number'' \<mapsto> CStr ''123456789012'']"

text \<open>FedEx 2Day shipped Monday 2024-01-01 and delivered Thursday 2024-01-04.\<close>

definition late_2day_row :: row where
  "late_2day_row =
     [''Carrier'' \<mapsto> CStr ''FedEx'', ''Service Type'' \<mapsto> CStr ''ES'',
      ''Service Description'' \<mapsto> CStr ''FedEx 2Day'',
      ''Shipment Date'' \<mapsto> CTime 1704067200, ''Delivery Date'' \<mapsto> CTime 1704326400,
      ''Total Charges'' \<mapsto> CNum 25, ''Tracking Number'' \<mapsto> CStr ''123456789012'']"

text \<open>A Late Delivery finding as \<open>check_late_deliveries\<close> writes it.\<close>

definition late_finding_row :: row where
  "late_finding_row =
     [''Error Type'' \<mapsto> CStr ''Late Delivery'',
      ''Tracking Number'' \<mapsto> CStr ''123456789012'',
      ''Date'' \<mapsto> CStr ''2023-12-27'',
      ''Refund Estimate'' \<mapsto> CNum 25,
      ''Notes'' \<mapsto> CStr ''Expected: 2023-12-29, Actual: 2024-01-01'']"

text \<open>Two lines of one tracking number, a charge of 50.00 each, billed by two carriers.\<close>

definition fedex_line :: row where
  "fedex_line =
     [''Tracking Number'' \<mapsto> CStr ''1Z999'', ''Carrier'' \<mapsto> CStr ''FedEx'',
      ''Service Type'' \<mapsto> CStr ''Ground'', ''Freight Charges'' \<mapsto> CNum 50,
      ''Total Charges'' \<mapsto> CNum 50]"

definition ups_line :: row where
  "ups_line =
     [''Tracking Number'' \<mapsto> CStr ''1z-999'', ''Carrier'' \<mapsto> CStr ''UPS'',
      ''Service Type'' \<mapsto> CStr ''Ground'', ''Freight Charges'' \<mapsto> CNum 50,
      ''Total Charges'' \<mapsto> CNum 50]"

text \<open>Two transport lines of one tracking number with net amounts 50.004 and 50.001,
  and one with net amount 30.\<close>

definition line_50_004 :: row where
  "line_50_004 =
     [''Tracking Number'' \<mapsto> CStr ''794644790132'', ''Carrier'' \<mapsto> CStr ''FedEx'',
      ''Service Type'' \<mapsto> CStr ''Ground'', ''Freight Charges'' \<mapsto> CNum (50004 / 1000),
      ''Total Charges'' \<mapsto> CNum (50004 / 1000)]"

definition line_50_001 :: row where
  "line_50_001 =
     [''Tracking Number'' \<mapsto> CStr ''794644790132'', ''Carrier'' \<mapsto> CStr ''FedEx'',
      ''Service Type'' \<mapsto> CStr ''Ground'', ''Freight Charges'' \<mapsto> CNum (50001 / 1000),
      ''Total Charges'' \<mapsto> CNum (50001 / 1000)]"

definition line_50 :: row where
  "line_50 =
     [''Tracking Number'' \<mapsto> CStr ''794644790132'', ''Carrier'' \<mapsto> CStr ''FedEx'',
      ''Service Type'' \<mapsto> CStr ''Ground'', ''Freight Charges'' \<mapsto> CNum 50,
      ''Total Charges'' \<mapsto> CNum 50]"

definition line_30 :: row where
  "line_30 =
     [''Tracking Number'' \<mapsto> CStr ''794644790132'', ''Carrier'' \<mapsto> CStr ''FedEx'',
      ''Service Type'' \<mapsto> CStr ''Ground'', ''Freight Charges'' \<mapsto> CNum 30,
      ''Total Charges'' \<mapsto> CNum 30]"

text \<open>An outbound line and the return of the same tracking number.\<close>

definition outbound_line :: row where
  "outbound_line =
     [''Tracking Number'' \<mapsto> CStr ''466761794075'', ''Carrier'' \<mapsto> CStr ''FedEx'',
      ''Service Description'' \<mapsto> CStr ''International Ground'',
      ''Freight Charges'' \<mapsto> CNum 40, ''Total Charges'' \<mapsto> CNum 40]"

definition return_line :: row where
  "return_line =
     [''Tracking Number'' \<mapsto> CStr ''466761794075'', ''Carrier'' \<mapsto> CStr ''FedEx'',
      ''Service Description'' \<mapsto> CStr ''Ground Return Manager'',
      ''Freight Charges'' \<mapsto> CNum 40, ''Total Charges'' \<mapsto> CNum 40]"

text \<open>Additional Handling charged on a 20 x 15 x 10 in package of 10 lb, on a
  50 x 20 x 20 in package of 60 lb, and on a 10 lb package without dimensions.\<close>

definition small_package :: row where
  "small_package =
     [''Tracking Number'' \<mapsto> CStr ''794644790132'', ''Carrier'' \<mapsto> CStr ''FedEx'',
      ''Service Type'' \<mapsto> CStr ''Ground'', ''Additional Handling'' \<mapsto> CNum 12,
      ''Length'' \<mapsto> CNum 20, ''Width'' \<mapsto> CNum 15, ''Height'' \<mapsto> CNum 10,
      ''Actual Weight'' \<mapsto> CNum 10]"

definition large_package :: row where
  "large_package =
     [''Tracking Number'' \<mapsto> CStr ''794644790143'', ''Carrier'' \<mapsto> CStr ''FedEx'',
      ''Service Type'' \<mapsto> CStr ''Ground'', ''Additional Handling'' \<mapsto> CNum 12,
      ''Length'' \<mapsto> CNum 50, ''Width'' \<mapsto> CNum 20, ''Height'' \<mapsto> CNum 20,
      ''Actual Weight'' \<mapsto> CNum 60]"

definition no_dims_package :: row where
  "no_dims_package =
     [''Tracking Number'' \<mapsto> CStr ''794644790154'', ''Carrier'' \<mapsto> CStr ''FedEx'',
      ''Service Type'' \<mapsto> CStr ''Ground'', ''Additional Handling'' \<mapsto> CNum 12,
      ''Actual Weight'' \<mapsto> CNum 10]"

text \<open>The FedEx 2Day record delivered at 10:00 on the expected day, and the record with
  a null Total Charges and a Base Rate of 25.\<close>

definition same_day_row :: row where
  "same_day_row =
     [''Carrier'' \<mapsto> CStr ''FedEx'', ''Service Type'' \<mapsto> CStr ''ES'',
      ''Service Description'' \<mapsto> CStr ''FedEx 2Day'',
      ''Shipment Date'' \<mapsto> CTime 1704067200, ''Delivery Date'' \<mapsto> CTime 1704276000,
      ''Total Charges'' \<mapsto> CNum 25, ''Tracking Number'' \<mapsto> CStr ''123456789012'']"

definition null_total_row :: row where
  "null_total_row =
     [''Carrier'' \<mapsto> CStr ''FedEx'', ''Service Type'' \<mapsto> CStr ''ES'',
      ''Service Description'' \<mapsto> CStr ''FedEx 2Day'',
      ''Shipment Date'' \<mapsto> CTime 1704067200, ''Delivery Date'' \<mapsto> CTime 1704326400,
      ''Total Charges'' \<mapsto> CNull, ''Base Rate'' \<mapsto> CNum 25,
      ''Tracking Number'' \<mapsto> CStr ''123456789012'']"


text \<open>The pair of the docstring of \<open>_is_original_plus_return_pair\<close>, service types SG
  and RMGR, in a table that has a Service Description column, null on both lines.\<close>

definition sg_line :: row where
  "sg_line =
     [''Tracking Number'' \<mapsto> CStr ''466761794075'', ''Carrier'' \<mapsto> CStr ''FedEx'',
      ''Service Description'' \<mapsto> CNull, ''Service Type'' \<mapsto> CStr ''SG'',
      ''Freight Charges'' \<mapsto> CNum 40, ''Total Charges'' \<mapsto> CNum 40]"

definition rmgr_line :: row where
  "rmgr_line =
     [''Tracking Number'' \<mapsto> CStr ''466761794075'', ''Carrier'' \<mapsto> CStr ''FedEx'',
      ''Service Description'' \<mapsto> CNull, ''Service Type'' \<mapsto> CStr ''RMGR'',
      ''Freight Charges'' \<mapsto> CNum 40, ''Total Charges'' \<mapsto> CNum 40]"

section \<open>Theorems\<close>

subsection \<open>Canonicalization order\<close>

lemma canonize_das_residential:
  "canonize ''DAS Residential Surcharge'' = ''DAS RESIDENTIAL''"
  by code_simp

text \<open>
  Claim C1. Canonicalization is first-match-wins over the ordered list \<open>CANON\<close>, and the
  claim asks that a label matching a specific and a generic pattern gets the specific
  name, naming "Peak Additional Handling" as resolved by the Peak pattern. In \<open>CANON\<close>
  the generic Additional Handling pattern stands at position 13 and the pattern
  \<open>PEAK\s*ADDITIONAL\s*HANDLING\<close> at position 17, so the generic one wins: the label
  "Peak Additional Handling" canonicalizes to \<open>ADDITIONAL HANDLING SURCHARGE\<close>.
\<close>

theorem canonize_peak_additional_handling:
  "canonize ''Peak Additional Handling'' = ''ADDITIONAL HANDLING SURCHARGE''"
  by code_simp

subsection \<open>Residential routing\<close>

text \<open>
  Claim C5. A record whose surcharge or description fields match a residential pattern
  goes to the residential review pool if and only if the recipient side or the shipper
  side lacks a business indicator, and stays in the main-audit pool if and only if both
  sides show one.
\<close>

theorem residential_routing:
  assumes "r \<in> set df" and "matches_residential L pats r"
  shows "has_residential_surcharge L pats r =
           (\<not> has_business_indicators (upper (get_full_destination_info L r)) \<or>
            \<not> has_business_indicators (upper (get_full_shipper_info L r))) \<and>
         (r \<in> set (residential_df L pats df) \<longleftrightarrow>
           (\<not> has_business_indicators (upper (get_full_destination_info L r)) \<or>
            \<not> has_business_indicators (upper (get_full_shipper_info L r)))) \<and>
         (r \<in> set (main_audit_df L pats df) \<longleftrightarrow>
           (has_business_indicators (upper (get_full_destination_info L r)) \<and>
            has_business_indicators (upper (get_full_shipper_info L r))))"
  using assms
  by (auto simp: has_residential_surcharge_def residential_df_def main_audit_df_def Let_def)

theorem residential_routing_witness:
  "has_business_indicators (upper (get_full_destination_info lib0 target_row)) \<and>
   target_row \<in> set (residential_df lib0 default_residential_patterns [target_row]) \<and>
   target_row \<notin> set (main_audit_df lib0 default_residential_patterns [target_row])"
proof -
  have i: "target_row \<in> set [target_row]" by simp
  have m: "matches_residential lib0 default_residential_patterns target_row" by code_simp
  have d: "has_business_indicators (upper (get_full_destination_info lib0 target_row))"
    by code_simp
  have s: "\<not> has_business_indicators (upper (get_full_shipper_info lib0 target_row))"
    by code_simp
  from residential_routing [OF i m] d s show ?thesis by simp
qed

subsection \<open>Late deliveries\<close>

lemma add_business_days_loop_spec:
  "a \<le> n \<Longrightarrow> \<exists>k. add_business_days_loop c a n = c + day_secs * int k \<and>
       count_business_days c k = n - a \<and>
       (a < n \<longrightarrow> weekday (add_business_days_loop c a n) < 5)"
proof (induction c a n rule: add_business_days_loop.induct)
  case (1 c a n)
  show ?case
  proof (cases "a < n")
    case False
    with 1(2) have "add_business_days_loop c a n = c" "n - a = 0" by simp_all
    then show ?thesis using False by (intro exI[of _ 0]) simp
  next
    case True
    let ?c = "c + day_secs"
    let ?a = "if weekday ?c < 5 then a + 1 else a"
    have le: "?a \<le> n" using True by simp
    have step: "add_business_days_loop c a n = add_business_days_loop ?c ?a n"
      using True by (subst add_business_days_loop.simps) (simp add: Let_def)
    from 1(1)[OF True refl le]
    obtain k where k: "add_business_days_loop ?c ?a n = ?c + day_secs * int k"
      "count_business_days ?c k = n - ?a"
      "?a < n \<longrightarrow> weekday (add_business_days_loop ?c ?a n) < 5" by blast
    have res: "add_business_days_loop c a n = c + day_secs * int (Suc k)"
      using step k(1) by (simp add: algebra_simps)
    have cnt: "count_business_days c (Suc k) = n - a"
      using k(2) True by (auto split: if_splits)
    have wk: "weekday (add_business_days_loop c a n) < 5"
    proof (cases "?a < n")
      case True
      with k(3) step show ?thesis by simp
    next
      case False
      with True have e: "weekday ?c < 5" "a + 1 = n" by (auto split: if_splits)
      then have "add_business_days_loop ?c ?a n = ?c" by simp
      with step e show ?thesis by simp
    qed
    from res cnt wk show ?thesis by blast
  qed
qed

lemma float_or0_absent: "r col = None \<Longrightarrow> float_or0 L r col = Inr (Fin 0)"
  by (simp add: float_or0_def)

lemma float_or0_zero: "r col = Some (CNum 0) \<Longrightarrow> float_or0 L r col = Inr (Fin 0)"
  by (simp add: float_or0_def)

lemma add_business_days_midnight:
  assumes "s mod day_secs = 0"
  shows "add_business_days s n mod day_secs = 0"
proof -
  from add_business_days_loop_spec [of 0 n s]
  obtain k where "add_business_days s n = s + day_secs * int k"
    by (auto simp: add_business_days_def)
  with assms show ?thesis by simp
qed

lemma midnight_compare:
  assumes "d mod day_secs = 0" and "e mod day_secs = 0"
  shows "(d > e) = (d div day_secs > e div day_secs)"
    and "(d - e) div day_secs = d div day_secs - e div day_secs"
proof -
  have pos: "(0::int) < day_secs" by (simp add: day_secs_def)
  from assms(1) have "day_secs dvd d" by (simp add: mod_eq_0_iff_dvd)
  then obtain a where a: "d = day_secs * a" by (auto simp: dvd_def)
  from assms(2) have "day_secs dvd e" by (simp add: mod_eq_0_iff_dvd)
  then obtain b where b: "e = day_secs * b" by (auto simp: dvd_def)
  have da: "d div day_secs = a" using a pos by simp
  have eb: "e div day_secs = b" using b pos by simp
  show "(d > e) = (d div day_secs > e div day_secs)"
    unfolding da eb unfolding a b using pos by (simp add: mult_less_cancel_left_pos)
  have "d - e = day_secs * (a - b)" using a b by (simp add: right_diff_distrib)
  then have "(d - e) div day_secs = a - b" using pos by simp
  then show "(d - e) div day_secs = d div day_secs - e div day_secs" by (simp add: da eb)
qed

text \<open>
  Claim C6, as amended. Take a record that passes the FedEx gate, whose expected transit
  is \<open>n\<close> business days, whose ship and delivery dates parse to dates \<open>s\<close> and \<open>d\<close>
  without a time of day, and whose three charge fields are numbers (an absent column is
  zero). The expected delivery is \<open>s\<close> moved forward by whole days to the \<open>n\<close>-th
  following business day (Saturdays and Sundays are not counted). The record yields
  exactly one Late Delivery finding if the delivery date is after the expected date, and
  none otherwise. The refund is the total charges, or the base rate if those are zero,
  or the billed amount if that is zero too. Notes holds the two dates, and the number of
  days late stands in Dispute Reason.
\<close>

theorem late_delivery_finding:
  assumes "\<not> fedex_not_guaranteed L r"
    and "expected_days_of L r = Some n"
    and "get_datetime_or L r ''Shipment Date'' ''Shipment Date (mm/dd/yyyy)'' = Some s"
    and "get_datetime_or L r ''Delivery Date'' ''Shipment Delivery Date (mm/dd/yyyy)'' = Some d"
    and "s mod day_secs = 0"
    and "d mod day_secs = 0"
    and "float_or0 L r ''Total Charges'' = Inr (Fin tc)"
    and "float_or0 L r ''Base Rate'' = Inr (Fin br)"
    and "float_or0 L r ''Billed Amount'' = Inr (Fin ba)"
  shows "(\<exists>k. add_business_days s n = s + day_secs * int k \<and> count_business_days s k = n \<and>
              (0 < n \<longrightarrow> weekday (add_business_days s n) < 5)) \<and>
         late_row L r =
           (if d div day_secs > add_business_days s n div day_secs then
              [\<lparr>Error_Type = ''Late Delivery'',
                Tracking_Number = get_cell r ''Tracking Number'',
                Date = strftime_ymd s,
                Carrier = get_cell r ''Carrier'',
                Service_Type = get_cell r ''Service Type'',
                Dispute_Reason = ''Package delivered '' @
                   show_int (d div day_secs - add_business_days s n div day_secs) @
                   '' day(s) late'',
                Refund_Estimate = Fin (if tc \<noteq> 0 then tc else if br \<noteq> 0 then br else ba),
                Notes = ''Expected: '' @ strftime_ymd (add_business_days s n) @
                        '', Actual: '' @ strftime_ymd d\<rparr>]
            else [])"
proof -
  let ?e = "add_business_days s n"
  have a: "\<exists>k. ?e = s + day_secs * int k \<and> count_business_days s k = n \<and>
              (0 < n \<longrightarrow> weekday ?e < 5)"
    using add_business_days_loop_spec [of 0 n s] by (simp add: add_business_days_def)
  have m: "?e mod day_secs = 0" using assms(5) by (rule add_business_days_midnight)
  note c = midnight_compare [OF assms(6) m]
  have b: "late_row L r =
           (if d > ?e then
              [late_finding r s ?e d
                 (Fin (if tc \<noteq> 0 then tc else if br \<noteq> 0 then br else ba))]
            else [])"
    using assms(1-4,7-9) by (simp add: late_row_def late_row_try_def Let_def or_num_def)
  from a b show ?thesis by (simp add: late_finding_def c)
qed

theorem late_delivery_finding_witness:
  "weekday 1704067200 = 0 \<and> weekday (add_business_days 1704067200 2) = 2 \<and>
   late_row lib0 late_2day_row =
     [\<lparr>Error_Type = ''Late Delivery'', Tracking_Number = CStr ''123456789012'',
       Date = ''2024-01-01'', Carrier = CStr ''FedEx'', Service_Type = CStr ''ES'',
       Dispute_Reason = ''Package delivered 1 day(s) late'',
       Refund_Estimate = Fin 25,
       Notes = ''Expected: 2024-01-03, Actual: 2024-01-04''\<rparr>]"
proof -
  have g: "\<not> fedex_not_guaranteed lib0 late_2day_row" by code_simp
  have e: "expected_days_of lib0 late_2day_row = Some 2" by code_simp
  have s: "get_datetime_or lib0 late_2day_row ''Shipment Date'' ''Shipment Date (mm/dd/yyyy)''
             = Some 1704067200" by code_simp
  have d: "get_datetime_or lib0 late_2day_row ''Delivery Date''
             ''Shipment Delivery Date (mm/dd/yyyy)'' = Some 1704326400" by code_simp
  have ms: "(1704067200::int) mod day_secs = 0" by code_simp
  have md: "(1704326400::int) mod day_secs = 0" by code_simp
  have t: "float_or0 lib0 late_2day_row ''Total Charges'' = Inr (Fin 25)" by code_simp
  have b: "float_or0 lib0 late_2day_row ''Base Rate'' = Inr (Fin 0)" by code_simp
  have a: "float_or0 lib0 late_2day_row ''Billed Amount'' = Inr (Fin 0)" by code_simp
  have x: "add_business_days 1704067200 2 = 1704240000" by code_simp
  have w: "weekday 1704067200 = 0" "weekday 1704240000 = 2" by code_simp+
  have c: "get_cell late_2day_row ''Tracking Number'' = CStr ''123456789012''"
    "get_cell late_2day_row ''Carrier'' = CStr ''FedEx''"
    "get_cell late_2day_row ''Service Type'' = CStr ''ES''" by code_simp+
  have f: "strftime_ymd 1704067200 = ''2024-01-01''" "strftime_ymd 1704240000 = ''2024-01-03''"
    "strftime_ymd 1704326400 = ''2024-01-04''" by code_simp+
  have q: "(1704326400::int) div day_secs = 19726" "(1704240000::int) div day_secs = 19725"
    "show_int (19726 - 19725) = ''1''" by code_simp+
  from late_delivery_finding [OF g e s d ms md t b a] have
    "late_row lib0 late_2day_row =
       (if (1704326400::int) div day_secs > add_business_days 1704067200 2 div day_secs then
          [\<lparr>Error_Type = ''Late Delivery'',
            Tracking_Number = get_cell late_2day_row ''Tracking Number'',
            Date = strftime_ymd 1704067200,
            Carrier = get_cell late_2day_row ''Carrier'',
            Service_Type = get_cell late_2day_row ''Service Type'',
            Dispute_Reason = ''Package delivered '' @
               show_int (1704326400 div day_secs - add_business_days 1704067200 2 div day_secs) @
               '' day(s) late'',
            Refund_Estimate = Fin (if (25::rat) \<noteq> 0 then 25 else if (0::rat) \<noteq> 0 then 0 else 0),
            Notes = ''Expected: '' @ strftime_ymd (add_business_days 1704067200 2) @
                    '', Actual: '' @ strftime_ymd 1704326400\<rparr>]
        else [])" by blast
  then show ?thesis unfolding x c f q using w by simp
qed

text \<open>
  Claim C6 as stated fails at three records. At the claim's own example (FedEx 2Day
  shipped on a Monday, delivered on the Thursday) the Notes of the finding hold the two
  dates only, and the day count is in Dispute Reason. Delivered at 10:00 on the expected
  day, the delivery date does not exceed the expected date, and a finding of 0 days late
  is emitted. With a null Total Charges and a Base Rate of 25 the refund is NaN, not the
  base rate.
\<close>

theorem late_delivery_counterexample:
  "map Notes (check_late_deliveries lib0 [late_2day_row]) =
     [''Expected: 2024-01-03, Actual: 2024-01-04''] \<and>
   map Dispute_Reason (check_late_deliveries lib0 [late_2day_row]) =
     [''Package delivered 1 day(s) late''] \<and>
   map Notes (check_late_deliveries lib0 [same_day_row]) =
     [''Expected: 2024-01-03, Actual: 2024-01-03''] \<and>
   map Dispute_Reason (check_late_deliveries lib0 [same_day_row]) =
     [''Package delivered 0 day(s) late''] \<and>
   map Refund_Estimate (check_late_deliveries lib0 [null_total_row]) = [NaN]"
proof -
  have a: "check_late_deliveries lib0 [late_2day_row] =
     [\<lparr>Error_Type = ''Late Delivery'', Tracking_Number = CStr ''123456789012'',
       Date = ''2024-01-01'', Carrier = CStr ''FedEx'', Service_Type = CStr ''ES'',
       Dispute_Reason = ''Package delivered 1 day(s) late'',
       Refund_Estimate = Fin 25,
       Notes = ''Expected: 2024-01-03, Actual: 2024-01-04''\<rparr>]" by code_simp
  have b: "check_late_deliveries lib0 [same_day_row] =
     [\<lparr>Error_Type = ''Late Delivery'', Tracking_Number = CStr ''123456789012'',
       Date = ''2024-01-01'', Carrier = CStr ''FedEx'', Service_Type = CStr ''ES'',
       Dispute_Reason = ''Package delivered 0 day(s) late'',
       Refund_Estimate = Fin 25,
       Notes = ''Expected: 2024-01-03, Actual: 2024-01-03''\<rparr>]" by code_simp
  have c: "map Refund_Estimate (check_late_deliveries lib0 [null_total_row]) = [NaN]"
    by code_simp
  show ?thesis unfolding a b c by simp
qed

subsection \<open>Filing window of a late delivery\<close>

text \<open>
  What the classifier computes for a finding whose error type holds \<open>LATE DELIVERY\<close>:
  the status depends on the Notes only. Without an \<open>Actual: <date>\<close> token, or with a
  token that is no date, it is \<open>missing_date\<close> whatever the other date columns hold; with
  a date without time zone it is \<open>within_window\<close> when today minus that date is at most
  15 whole days and \<open>expired\<close> when it is more.
\<close>

lemma late_delivery_status:
  assumes "str_contains (word ''LATE DELIVERY'') (error_upper r)"
  shows "filing_status L today r =
           (case extract_actual_date L r of
              Naive a \<Rightarrow> if (today - a) div day_secs \<le> 15 then within_window else expired
            | _ \<Rightarrow> missing_date)"
  using assms
  by (simp add: filing_status_def stage_def Let_def split: stamp.splits)

lemma late_delivery_status_examples:
  "actual_token lib0 late_finding_row = Some ''2024-01-01'' \<and>
   filing_status lib0 (days_from_civil 2024 2 1 * day_secs) late_finding_row = expired \<and>
   filing_status lib0 (days_from_civil 2024 1 10 * day_secs) late_finding_row = within_window"
  by code_simp


subsection \<open>Duplicate tracking\<close>

lemma collect_Inr:
  "collect f xs = Inr fs \<Longrightarrow> fs = concat (map (\<lambda>x. emitted (f x)) xs)"
  by (induction xs arbitrary: fs) (auto simp: emitted_def split: sum.splits)

lemma count_list_map_filter:
  "count_list (map f xs) k = length (filter (\<lambda>x. f x = k) xs)"
  by (induction xs) auto

lemma dup_keys_distinct: "distinct (dup_keys L df)"
  by (simp add: dup_keys_def Let_def)

lemma dup_keys_iff: "t \<in> set (dup_keys L df) \<longleftrightarrow> length (group_rows L df t) > 1"
proof -
  have "count_list (map (key_tracking L) df) t > 1 \<Longrightarrow> t \<in> set (map (key_tracking L) df)"
    by (metis count_notin not_less_zero)
  then show ?thesis
    by (auto simp: dup_keys_def Let_def group_rows_def count_list_map_filter)
qed

lemma group_findings_cases:
  "group_findings L df t = Inr [] \<or>
   (\<exists>e. group_findings L df t = Inl e) \<or>
   (\<exists>f. group_findings L df t = Inr [f] \<and>
        Tracking_Number f = tracking_cell (hd (group_rows L df t)) \<and>
        1 < length (filter (\<lambda>r. row_class L df r = TRANSPORT) (group_rows L df t)))"
  unfolding group_findings_def Let_def
  by (cases "dup_date L (hd (group_rows L df t))") simp_all

lemma group_findings_key:
  assumes "f \<in> set (emitted (group_findings L df t))"
  shows "normalize_tracking L (Tracking_Number f) = t"
proof -
  let ?g = "group_rows L df t"
  from group_findings_cases [of L df t] assms
  have tn: "Tracking_Number f = tracking_cell (hd ?g)"
    and n: "1 < length (filter (\<lambda>r. row_class L df r = TRANSPORT) ?g)"
    by (auto simp: emitted_def)
  from n have "?g \<noteq> []" by auto
  then have "hd ?g \<in> set ?g" by (rule hd_in_set)
  then have k: "key_tracking L (hd ?g) = t" by (simp add: group_rows_def)
  with tn show ?thesis by (simp add: key_tracking_def)
qed

lemma filter_concat_keyed:
  assumes "distinct ks" and "\<And>k x. k \<in> set ks \<Longrightarrow> x \<in> set (g k) \<Longrightarrow> key x = k"
  shows "filter (\<lambda>x. key x = t) (concat (map g ks)) = (if t \<in> set ks then g t else [])"
  using assms
proof (induction ks)
  case Nil
  then show ?case by simp
next
  case (Cons k ks)
  have a: "filter (\<lambda>x. key x = t) (g k) = (if k = t then g k else [])"
    using Cons.prems(2) [of k] by (auto simp: filter_empty_conv intro: filter_True)
  have b: "filter (\<lambda>x. key x = t) (concat (map g ks)) = (if t \<in> set ks then g t else [])"
    using Cons by simp
  from a b Cons.prems(1) show ?case by auto
qed

lemma findings_of_key:
  assumes "check_duplicate_tracking L df = Inr fs"
  shows "filter (\<lambda>f. normalize_tracking L (Tracking_Number f) = t) fs =
           (if df \<noteq> [] \<and> in_columns df ''Tracking Number'' \<and> t \<in> set (dup_keys L df)
            then emitted (group_findings L df t) else [])"
proof (cases "df = [] \<or> \<not> in_columns df ''Tracking Number''")
  case True
  with assms have "fs = []" by (auto simp: check_duplicate_tracking_def)
  with True show ?thesis by auto
next
  case False
  with assms have "collect (group_findings L df) (dup_keys L df) = Inr fs"
    by (simp add: check_duplicate_tracking_def)
  then have fs: "fs = concat (map (\<lambda>k. emitted (group_findings L df k)) (dup_keys L df))"
    by (rule collect_Inr)
  have k: "\<And>k x. k \<in> set (dup_keys L df) \<Longrightarrow> x \<in> set (emitted (group_findings L df k))
             \<Longrightarrow> normalize_tracking L (Tracking_Number x) = k"
    by (rule group_findings_key)
  have "filter (\<lambda>f. normalize_tracking L (Tracking_Number f) = t)
          (concat (map (\<lambda>k. emitted (group_findings L df k)) (dup_keys L df))) =
        (if t \<in> set (dup_keys L df) then emitted (group_findings L df t) else [])"
    by (rule filter_concat_keyed [where g = "\<lambda>k. emitted (group_findings L df k)"
          and key = "\<lambda>f. normalize_tracking L (Tracking_Number f)", OF dup_keys_distinct k])
  with fs False show ?thesis by simp
qed

lemma remdups_le1:
  assumes "xs \<noteq> []"
  shows "(length (remdups xs) > 1) = (\<not> (\<forall>x\<in>set xs. x = hd xs))"
proof -
  have c: "length (remdups xs) = card (set xs)" by (rule length_remdups_card_conv)
  have h: "hd xs \<in> set xs" using assms by (rule hd_in_set)
  show ?thesis
  proof
    assume a: "1 < length (remdups xs)"
    show "\<not> (\<forall>x\<in>set xs. x = hd xs)"
    proof
      assume "\<forall>x\<in>set xs. x = hd xs"
      then have "set xs \<subseteq> {hd xs}" by blast
      then have "card (set xs) \<le> card {hd xs}" by (rule card_mono [rotated]) simp
      then have "card (set xs) \<le> 1" by simp
      with a c show False by linarith
    qed
  next
    assume "\<not> (\<forall>x\<in>set xs. x = hd xs)"
    then obtain x where x: "x \<in> set xs" "x \<noteq> hd xs" by blast
    then have s: "{x, hd xs} \<subseteq> set xs" using h by blast
    have "card {x, hd xs} \<le> card (set xs)" by (rule card_mono [OF finite_set s])
    moreover have "card {x, hd xs} = 2" using x(2) by (simp add: card_insert_if)
    ultimately show "1 < length (remdups xs)" using c by linarith
  qed
qed

lemma list_max_Max:
  assumes "xs \<noteq> []"
  shows "list_max xs = Max (set xs)"
proof (cases xs)
  case Nil
  with assms show ?thesis by simp
next
  case (Cons a list)
  have "list_max (a # list) = fold max list a" by simp
  also have "\<dots> = Max (set (a # list))" by (rule Max.set_eq_fold [symmetric])
  finally show ?thesis unfolding Cons .
qed

lemma dup_refund_cases:
  assumes "nets \<noteq> []"
  shows "dup_refund L nets =
           (if \<forall>x\<in>set nets. round2 L x = round2 L (hd nets)
            then hd nets * (of_nat (length nets) - 1)
            else sum_list nets - Max (set nets))"
proof -
  have "map (round2 L) nets \<noteq> []" using assms by simp
  from remdups_le1 [OF this] assms
  have "(length (remdups (map (round2 L) nets)) > 1) =
          (\<not> (\<forall>x\<in>set nets. round2 L x = round2 L (hd nets)))"
    by (simp add: hd_map)
  then show ?thesis using list_max_Max [OF assms] by (simp add: dup_refund_def)
qed

lemma sum_list_const: "\<forall>x\<in>set xs. x = (a::rat) \<Longrightarrow> sum_list xs = of_nat (length xs) * a"
  by (induction xs) (auto simp: algebra_simps)


lemma collect_returns:
  assumes "\<And>x. x \<in> set xs \<Longrightarrow> \<exists>ys. f x = Inr ys"
  shows "\<exists>fs. collect f xs = Inr fs"
  using assms
proof (induction xs)
  case Nil
  show ?case by simp
next
  case (Cons x xs)
  from Cons.prems [of x] obtain ys where y: "f x = Inr ys" by auto
  from Cons.IH Cons.prems obtain zs where z: "collect f xs = Inr zs" by auto
  from y z show ?case by simp
qed

lemma group_findings_returns:
  assumes "dup_date L (hd (group_rows L df t)) = Inr ds"
  shows "\<exists>fs. group_findings L df t = Inr fs"
  using assms unfolding group_findings_def Let_def by simp

lemma check_duplicate_tracking_returns:
  assumes "\<forall>r\<in>set df. \<exists>ds. dup_date L r = Inr ds"
  shows "\<exists>fs. check_duplicate_tracking L df = Inr fs"
proof (cases "df = [] \<or> \<not> in_columns df ''Tracking Number''")
  case True
  then show ?thesis by (auto simp: check_duplicate_tracking_def)
next
  case False
  have "\<exists>ys. group_findings L df k = Inr ys" if "k \<in> set (dup_keys L df)" for k
  proof -
    from that have "1 < length (group_rows L df k)" by (simp add: dup_keys_iff)
    then have "group_rows L df k \<noteq> []" by auto
    then have "hd (group_rows L df k) \<in> set (group_rows L df k)" by (rule hd_in_set)
    then have "hd (group_rows L df k) \<in> set df" by (simp add: group_rows_def)
    with assms obtain ds where "dup_date L (hd (group_rows L df k)) = Inr ds" by blast
    then show ?thesis by (rule group_findings_returns)
  qed
  then have "\<exists>fs. collect (group_findings L df) (dup_keys L df) = Inr fs"
    by (rule collect_returns)
  with False show ?thesis by (simp add: check_duplicate_tracking_def)
qed

text \<open>
  Claim C2, as amended. Take a table with a Tracking Number column in which every
  Shipment Date is absent, null or a date, and a normalized tracking number \<open>t\<close> that
  is not empty, whose rows are not an Original+Return pair and hold more than one
  TRANSPORT line. Then the call returns and emits exactly one finding for \<open>t\<close>. Its
  refund is the first transport net amount times (count - 1) when all transport net
  amounts agree after \<open>round(x, 2)\<close>, and the sum minus the maximum when their rounded
  values differ. In particular equal amounts \<open>a\<close> give \<open>a\<close> times (count - 1).
\<close>

theorem duplicate_refund:
  assumes "t \<noteq> []"
    and "\<not> is_original_plus_return_pair L df (group_rows L df t)"
    and "1 < length (transport_nets_of L df t)"
    and "in_columns df ''Tracking Number''"
    and "\<forall>r\<in>set df. \<exists>ds. dup_date L r = Inr ds"
  shows "\<exists>fs f. check_duplicate_tracking L df = Inr fs \<and>
             group_findings L df t = Inr [f] \<and>
             filter (\<lambda>f. normalize_tracking L (Tracking_Number f) = t) fs = [f] \<and>
             Refund_Estimate f =
               Fin (if \<forall>x\<in>set (transport_nets_of L df t).
                          round2 L x = round2 L (hd (transport_nets_of L df t))
                    then hd (transport_nets_of L df t) *
                         (of_nat (length (transport_nets_of L df t)) - 1)
                    else sum_list (transport_nets_of L df t) -
                         Max (set (transport_nets_of L df t))) \<and>
             ((\<forall>x\<in>set (transport_nets_of L df t). x = a) \<longrightarrow>
                Refund_Estimate f = Fin (a * (of_nat (length (transport_nets_of L df t)) - 1)))"
proof -
  let ?nets = "transport_nets_of L df t"
  let ?g = "group_rows L df t"
  let ?tr = "filter (\<lambda>r. row_class L df r = TRANSPORT) ?g"
  have n: "1 < length ?tr" using assms(3) by (simp add: transport_nets_of_def)
  have ne: "?nets \<noteq> []" using assms(3) by auto
  have "length ?tr \<le> length ?g" by (rule length_filter_le)
  with n have lg: "1 < length ?g" by linarith
  then have mem: "t \<in> set (dup_keys L df)" by (simp add: dup_keys_iff)
  have nonempty: "df \<noteq> []" using assms(4) by (auto simp: in_columns_def)
  from check_duplicate_tracking_returns [OF assms(5)]
  obtain fs where fs: "check_duplicate_tracking L df = Inr fs" by blast
  from lg have "?g \<noteq> []" by auto
  then have "hd ?g \<in> set ?g" by (rule hd_in_set)
  then have "hd ?g \<in> set df" by (simp add: group_rows_def)
  with assms(5) obtain ds where ds: "dup_date L (hd ?g) = Inr ds" by blast
  obtain f where gf: "group_findings L df t = Inr [f]"
    and rf: "Refund_Estimate f = Fin (dup_refund L ?nets)"
    using assms(1,2) ds n
    by (simp add: group_findings_def Let_def transport_nets_of_def)
  have "filter (\<lambda>f. normalize_tracking L (Tracking_Number f) = t) fs =
          emitted (group_findings L df t)"
    using findings_of_key [OF fs, of t] mem nonempty assms(4) by simp
  then have fl: "filter (\<lambda>f. normalize_tracking L (Tracking_Number f) = t) fs = [f]"
    using gf by (simp add: emitted_def)
  have r1: "Refund_Estimate f =
      Fin (if \<forall>x\<in>set ?nets. round2 L x = round2 L (hd ?nets)
           then hd ?nets * (of_nat (length ?nets) - 1)
           else sum_list ?nets - Max (set ?nets))"
    using rf dup_refund_cases [OF ne, of L] by simp
  have r2: "(\<forall>x\<in>set ?nets. x = a) \<longrightarrow>
      Refund_Estimate f = Fin (a * (of_nat (length ?nets) - 1))"
  proof
    assume eq: "\<forall>x\<in>set ?nets. x = a"
    have "hd ?nets \<in> set ?nets" using ne by (rule hd_in_set)
    with eq have h: "hd ?nets = a" by blast
    from eq h have "\<forall>x\<in>set ?nets. round2 L x = round2 L (hd ?nets)" by simp
    with r1 h show "Refund_Estimate f = Fin (a * (of_nat (length ?nets) - 1))" by simp
  qed
  from fs gf fl r1 r2 show ?thesis by blast
qed

theorem duplicate_refund_witness:
  "(\<exists>fs f. check_duplicate_tracking lib0 [line_50, line_30] = Inr fs \<and>
        filter (\<lambda>f. normalize_tracking lib0 (Tracking_Number f) = ''794644790132'') fs = [f] \<and>
        Refund_Estimate f = Fin 30) \<and>
   (\<exists>fs f. check_duplicate_tracking lib0 [line_50, line_50] = Inr fs \<and>
        filter (\<lambda>f. normalize_tracking lib0 (Tracking_Number f) = ''794644790132'') fs = [f] \<and>
        Refund_Estimate f = Fin 50)"
proof -
  have t: "''794644790132'' \<noteq> []" by simp
  have p1: "\<not> is_original_plus_return_pair lib0 [line_50, line_30]
              (group_rows lib0 [line_50, line_30] ''794644790132'')" by code_simp
  have p2: "\<not> is_original_plus_return_pair lib0 [line_50, line_50]
              (group_rows lib0 [line_50, line_50] ''794644790132'')" by code_simp
  have n1: "transport_nets_of lib0 [line_50, line_30] ''794644790132'' = [50, 30]"
    by code_simp
  have n2: "transport_nets_of lib0 [line_50, line_50] ''794644790132'' = [50, 50]"
    by code_simp
  have d: "dup_date lib0 line_50 = Inr []" "dup_date lib0 line_30 = Inr []"
    by code_simp+
  have a1: "\<forall>r\<in>set [line_50, line_30]. \<exists>ds. dup_date lib0 r = Inr ds"
    by (simp add: d)
  have a2: "\<forall>r\<in>set [line_50, line_50]. \<exists>ds. dup_date lib0 r = Inr ds"
    by (simp add: d)
  have c1: "in_columns [line_50, line_30] ''Tracking Number''" by code_simp
  have c2: "in_columns [line_50, line_50] ''Tracking Number''" by code_simp
  have r: "round2 lib0 50 \<noteq> round2 lib0 30" by code_simp
  have l1: "1 < length (transport_nets_of lib0 [line_50, line_30] ''794644790132'')"
    by (simp add: n1)
  have l2: "1 < length (transport_nets_of lib0 [line_50, line_50] ''794644790132'')"
    by (simp add: n2)
  from duplicate_refund [OF t p1 l1 c1 a1, of 0] r
  have a: "\<exists>fs f. check_duplicate_tracking lib0 [line_50, line_30] = Inr fs \<and>
        filter (\<lambda>f. normalize_tracking lib0 (Tracking_Number f) = ''794644790132'') fs = [f] \<and>
        Refund_Estimate f = Fin 30"
    unfolding n1 by auto
  from duplicate_refund [OF t p2 l2 c2 a2, of 50]
  have b: "\<exists>fs f. check_duplicate_tracking lib0 [line_50, line_50] = Inr fs \<and>
        filter (\<lambda>f. normalize_tracking lib0 (Tracking_Number f) = ''794644790132'') fs = [f] \<and>
        Refund_Estimate f = Fin 50"
    unfolding n2 by auto
  from a b show ?thesis by blast
qed

text \<open>
  Claim C2 as stated asks for sum minus maximum whenever the amounts differ. Two
  transport lines with net amounts 50.004 and 50.001 differ, and sum minus maximum is
  50.001; the amounts agree after rounding to cents, so the refund is the first amount
  times one, 50.004.
\<close>

theorem duplicate_refund_counterexample:
  "transport_nets_of lib0 [line_50_004, line_50_001] ''794644790132'' =
     [50004 / 1000, 50001 / 1000] \<and>
   sum_list (transport_nets_of lib0 [line_50_004, line_50_001] ''794644790132'') -
     list_max (transport_nets_of lib0 [line_50_004, line_50_001] ''794644790132'') =
     50001 / 1000 \<and>
   map Refund_Estimate (emitted (check_duplicate_tracking lib0 [line_50_004, line_50_001])) =
     [Fin (50004 / 1000)]"
  by code_simp

text \<open>
  Claim C3 asks that lines of different carriers with one normalized tracking number
  fall in different groups. The source builds the key of carrier and tracking number
  (\<open>_group_key\<close>) and then groups on the tracking number alone: a FedEx line and a UPS
  line of tracking number 1Z999, with different group keys, are reported together as
  one duplicate billing of two identical charges.
\<close>

theorem duplicate_groups_ignore_carrier:
  "group_key lib0 fedex_line = ''FEDEX||1Z999'' \<and>
   group_key lib0 ups_line = ''UPS||1Z999'' \<and>
   check_duplicate_tracking lib0 [fedex_line, ups_line] =
     Inr [\<lparr>Error_Type = ''Duplicate Tracking'', Tracking_Number = CStr ''1Z999'', Date = [],
           Carrier = CStr ''FedEx'', Service_Type = CStr ''Ground'',
           Dispute_Reason = ''Duplicate freight billing (2 identical charges)'',
           Refund_Estimate = Fin 50,
           Notes = ''Transport: 2, Duty/Tax: 0, Landed: $100.00''\<rparr>]"
  by code_simp

text \<open>
  What the exemption does: when the rows of a tracking number are exactly two and
  exactly one of their cells in the first service column that the table has names a
  return, the group yields no finding, and the call emits no finding for that tracking
  number.
\<close>

lemma return_pair_first_column_skipped:
  assumes "group_rows L df t = [r1, r2]"
    and "service_col df = Some col"
    and "is_return_service L (service_cell r1 col) \<noteq> is_return_service L (service_cell r2 col)"
  shows "group_findings L df t = Inr [] \<and>
         filter (\<lambda>f. normalize_tracking L (Tracking_Number f) = t)
           (emitted (check_duplicate_tracking L df)) = []"
proof -
  have p: "is_original_plus_return_pair L df (group_rows L df t)"
    using assms by (auto simp: is_original_plus_return_pair_def)
  then have g: "group_findings L df t = Inr []"
    by (simp add: group_findings_def Let_def)
  have "filter (\<lambda>f. normalize_tracking L (Tracking_Number f) = t)
           (emitted (check_duplicate_tracking L df)) = []"
  proof (cases "check_duplicate_tracking L df")
    case (Inl e)
    then show ?thesis by (simp add: emitted_def)
  next
    case (Inr fs)
    from findings_of_key [OF Inr, of t] g Inr show ?thesis by (simp add: emitted_def)
  qed
  with g show ?thesis by simp
qed

lemma international_ground_return_pair:
  "check_duplicate_tracking lib0 [outbound_line, return_line] = Inr []"
  by code_simp

text \<open>
  Claim C4 asks for no finding whenever a service type or description field is present
  and exactly one of the two lines names a return. The source reads only the first of
  its seven service columns that the table has. In a table with a Service Description
  column that is null on both lines, the pair of the docstring of
  \<open>_is_original_plus_return_pair\<close> (service types SG and RMGR) is not recognised: the
  Service Type of exactly one line names a return, and the call reports a duplicate
  freight billing of two identical charges with a refund of 40.
\<close>

theorem service_type_return_pair_flagged:
  "service_col [sg_line, rmgr_line] = Some ''Service Description'' \<and>
   is_return_service lib0 (service_cell sg_line ''Service Type'') = False \<and>
   is_return_service lib0 (service_cell rmgr_line ''Service Type'') = True \<and>
   check_duplicate_tracking lib0 [sg_line, rmgr_line] =
     Inr [\<lparr>Error_Type = ''Duplicate Tracking'', Tracking_Number = CStr ''466761794075'',
           Date = [], Carrier = CStr ''FedEx'', Service_Type = CStr ''SG'',
           Dispute_Reason = ''Duplicate freight billing (2 identical charges)'',
           Refund_Estimate = Fin 40,
           Notes = ''Transport: 2, Duty/Tax: 0, Landed: $80.00''\<rparr>]"
proof -
  have a: "service_col [sg_line, rmgr_line] = Some ''Service Description''" by code_simp
  have b: "is_return_service lib0 (service_cell sg_line ''Service Type'') = False"
    by code_simp
  have c: "is_return_service lib0 (service_cell rmgr_line ''Service Type'') = True"
    by code_simp
  have d: "check_duplicate_tracking lib0 [sg_line, rmgr_line] =
     Inr [\<lparr>Error_Type = ''Duplicate Tracking'', Tracking_Number = CStr ''466761794075'',
           Date = [], Carrier = CStr ''FedEx'', Service_Type = CStr ''SG'',
           Dispute_Reason = ''Duplicate freight billing (2 identical charges)'',
           Refund_Estimate = Fin 40,
           Notes = ''Transport: 2, Duty/Tax: 0, Landed: $80.00''\<rparr>]" by code_simp
  from a b c d show ?thesis by simp
qed

end
